theory Spec2Isabelle
  imports Complex_Main "HOL-Library.Word" "HOL-Library.Multiset"
begin

section \<open>The imaging library, the clock and the file system\<close>

text \<open>
  The programs call OpenCV, \<^verbatim>\<open>std::chrono\<close> and \<^verbatim>\<open>std::filesystem\<close>, none of
  which belongs to the repository. Matrices and contours are type parameters, and the library
  calls the programs make are the fields of a record, each standing for the call with the
  constant arguments the source passes:
  \<^verbatim>\<open>imread(p, IMREAD_GRAYSCALE)\<close>, \<^verbatim>\<open>Mat::empty()\<close>,
  \<^verbatim>\<open>GaussianBlur(src, dst, Size(5, 5), 0)\<close>, \<^verbatim>\<open>subtract(a, b, dst)\<close>,
  \<^verbatim>\<open>threshold(src, dst, 10, 255, THRESH_BINARY)\<close>, \<^verbatim>\<open>countNonZero(m)\<close>,
  \<^verbatim>\<open>dilate\<close> and \<^verbatim>\<open>erode\<close> with the 3x3 cross kernel and the given number of iterations,
  \<^verbatim>\<open>findContours(m, contours, hierarchy, RETR_LIST, CHAIN_APPROX_NONE)\<close>,
  \<^verbatim>\<open>contourArea(c)\<close>, \<^verbatim>\<open>arcLength(c, true)\<close> and \<^verbatim>\<open>convexHull(c, hull)\<close>.
  Each of these fields gives what the call returns when it returns. One way in which a call
  raises instead is modelled: \<^verbatim>\<open>GaussianBlur\<close> asserts that its source is not empty and
  throws \<^verbatim>\<open>cv::Exception\<close> otherwise, which is what happens to the empty matrix that
  \<^verbatim>\<open>imread\<close> returns for a file it cannot read. The field \<open>GaussianBlur_raises\<close> says
  for which sources the call throws. Any other call that raises inside the library is outside
  the model.
  A \<^verbatim>\<open>double\<close> is a real number (rounding is not modelled) and \<^verbatim>\<open>M_PI\<close> is \<open>pi\<close>.
\<close>

record ('mat, 'cnt) opencv =
  imread :: "string \<Rightarrow> 'mat"
  Mat_empty :: "'mat \<Rightarrow> bool"
  GaussianBlur :: "'mat \<Rightarrow> 'mat"
  GaussianBlur_raises :: "'mat \<Rightarrow> bool"
  subtract :: "'mat \<Rightarrow> 'mat \<Rightarrow> 'mat"
  threshold :: "'mat \<Rightarrow> 'mat"
  countNonZero :: "'mat \<Rightarrow> int"
  dilate :: "'mat \<Rightarrow> nat \<Rightarrow> 'mat"
  erode :: "'mat \<Rightarrow> nat \<Rightarrow> 'mat"
  findContours :: "'mat \<Rightarrow> 'cnt list"
  contourArea :: "'cnt \<Rightarrow> real"
  arcLength :: "'cnt \<Rightarrow> real"
  convexHull :: "'cnt \<Rightarrow> 'cnt"

text \<open>
  The readings of \<^verbatim>\<open>chrono::high_resolution_clock::now()\<close> while one frame is processed,
  in microseconds, numbered in the order of the calls: reading \<open>0\<close> is \<^verbatim>\<open>start_time\<close>.
\<close>

type_synonym clock = "nat \<Rightarrow> real"

section \<open>Contour metrics (the same text in all three harness programs)\<close>

record ContourMetrics =
  area_original :: real
  area_hull :: real
  area_ratio :: real
  circularity_original :: real
  circularity_hull :: real
  circularity_ratio :: real

text \<open>The value-initialised \<^verbatim>\<open>ContourMetrics()\<close>: every member has the initialiser \<open>0\<close>.\<close>

definition ContourMetrics0 :: ContourMetrics where
  "ContourMetrics0 =
     \<lparr>area_original = 0, area_hull = 0, area_ratio = 0,
      circularity_original = 0, circularity_hull = 0, circularity_ratio = 0\<rparr>"

text \<open>
  \<^verbatim>\<open>std::max_element(first, last, cmp)\<close> on a non-empty range whose first element is
  \<open>largest\<close>: the candidate is replaced only when \<open>cmp\<close> puts it strictly below the next
  element, so the first of several greatest elements is returned.
\<close>

fun max_element :: "('a \<Rightarrow> 'a \<Rightarrow> bool) \<Rightarrow> 'a \<Rightarrow> 'a list \<Rightarrow> 'a" where
  "max_element cmp largest [] = largest"
| "max_element cmp largest (x # xs) =
     max_element cmp (if cmp largest x then x else largest) xs"

text \<open>The literal \<^verbatim>\<open>1e-6\<close> of the two degeneracy tests.\<close>

definition tiny :: real where
  "tiny = 1 / 1000000"

definition calculate_contour_metrics :: "('mat, 'cnt) opencv \<Rightarrow> 'cnt list \<Rightarrow> ContourMetrics" where
  "calculate_contour_metrics cv contours =
     (case contours of
        [] \<Rightarrow> ContourMetrics0
      | c # cs \<Rightarrow>
          let cnt = max_element (\<lambda>c1 c2. contourArea cv c1 < contourArea cv c2) c cs;
              area_original = contourArea cv cnt;
              perimeter_original = arcLength cv cnt
          in if area_original \<le> tiny \<or> perimeter_original \<le> tiny then ContourMetrics0
             else
               let circularity_original =
                     4 * pi * area_original / (perimeter_original * perimeter_original);
                   hull' = convexHull cv cnt;
                   area_hull = contourArea cv hull';
                   perimeter_hull = arcLength cv hull'
               in if area_hull \<le> tiny \<or> perimeter_hull \<le> tiny then ContourMetrics0
                  else
                    let circularity_hull =
                          4 * pi * area_hull / (perimeter_hull * perimeter_hull)
                    in \<lparr>area_original = area_original,
                        area_hull = area_hull,
                        area_ratio = area_hull / area_original,
                        circularity_original = circularity_original,
                        circularity_hull = circularity_hull,
                        circularity_ratio = circularity_hull / circularity_original\<rparr>)"

text \<open>A name for the four degeneracy tests of lines 40 and 52 together, used to state properties.\<close>

definition degenerate :: "('mat, 'cnt) opencv \<Rightarrow> 'cnt \<Rightarrow> bool" where
  "degenerate cv cnt \<longleftrightarrow>
     contourArea cv cnt \<le> tiny \<or> arcLength cv cnt \<le> tiny
     \<or> contourArea cv (convexHull cv cnt) \<le> tiny \<or> arcLength cv (convexHull cv cnt) \<le> tiny"

section \<open>The frame processor of findcontour\_time\_10000.cpp\<close>

text \<open>
  The reference parameters of \<^verbatim>\<open>process_single_image\<close>: the function receives the
  caller's variables and leaves in them what it wrote. All three programs have
  \<^verbatim>\<open>contours\<close>, \<^verbatim>\<open>metrics\<close> and \<^verbatim>\<open>duration\<close>; findcontour\_time\_10000.cpp adds
  \<^verbatim>\<open>findcontour_duration\<close>.
\<close>

record 'cnt outs =
  contours :: "'cnt list"
  metrics :: ContourMetrics
  duration :: real

record 'cnt outs_fc = "'cnt outs" +
  findcontour_duration :: real

definition process_single_image_fc ::
    "('mat, 'cnt) opencv \<Rightarrow> clock \<Rightarrow> string \<Rightarrow> 'mat \<Rightarrow> 'cnt outs_fc \<Rightarrow> 'cnt outs_fc" where
  "process_single_image_fc cv now image_path blurred_bg out =
     (let image = imread cv image_path;
          start_time = now 0;
          blurred = GaussianBlur cv image;
          bg_sub = subtract cv blurred_bg blurred;
          binary = threshold cv bg_sub;
          white_pixel_count = countNonZero cv binary
      in if white_pixel_count < 250 \<or> white_pixel_count > 650
         then out\<lparr>duration := 0\<rparr>
         else
           let dilate1 = dilate cv binary 2;
               erode1 = erode cv dilate1 3;
               dilate2 = dilate cv erode1 1;
               findcontour_start = now 1;
               out1 = out\<lparr>contours := findContours cv dilate2\<rparr>;
               findcontour_end = now 2;
               out2 = out1\<lparr>findcontour_duration := findcontour_end - findcontour_start\<rparr>;
               end_time = now 3;
               out3 = out2\<lparr>duration := end_time - start_time\<rparr>
           in if contours out3 \<noteq> []
              then out3\<lparr>metrics := calculate_contour_metrics cv (contours out3)\<rparr>
              else out3)"

text \<open>
  Names for two intermediate values of the pipeline, used to state properties: the local
  \<^verbatim>\<open>white_pixel_count\<close> (the count of non-zero pixels of \<^verbatim>\<open>binary\<close>) and the matrix
  \<^verbatim>\<open>dilate2\<close> that is handed to \<^verbatim>\<open>findContours\<close>.
\<close>

definition binary_of :: "('mat, 'cnt) opencv \<Rightarrow> string \<Rightarrow> 'mat \<Rightarrow> 'mat" where
  "binary_of cv image_path blurred_bg =
     threshold cv (subtract cv blurred_bg (GaussianBlur cv (imread cv image_path)))"

definition white_pixel_count_of :: "('mat, 'cnt) opencv \<Rightarrow> string \<Rightarrow> 'mat \<Rightarrow> int" where
  "white_pixel_count_of cv image_path blurred_bg =
     countNonZero cv (binary_of cv image_path blurred_bg)"

definition dilate2_of :: "('mat, 'cnt) opencv \<Rightarrow> string \<Rightarrow> 'mat \<Rightarrow> 'mat" where
  "dilate2_of cv image_path blurred_bg =
     dilate cv (erode cv (dilate cv (binary_of cv image_path blurred_bg) 2) 3) 1"

section \<open>The harness of findcontour\_time\_10000.cpp\<close>

text \<open>
  What one call of \<^verbatim>\<open>run_experiment\<close> finds outside the program: the library with the
  files as \<^verbatim>\<open>imread\<close> sees them, the entries \<^verbatim>\<open>fs::directory_iterator(directory)\<close>
  yields (each with the \<^verbatim>\<open>path()\<close>, \<^verbatim>\<open>extension()\<close> and \<^verbatim>\<open>filename()\<close> the standard
  library gives for it), the clock readings taken while the frame at a path is processed, and
  the indeterminate value an uninitialised \<^verbatim>\<open>double\<close> local holds.
\<close>

record dir_entry =
  entry_path :: string
  extension :: string
  filename :: string

record ('mat, 'cnt) world =
  lib :: "('mat, 'cnt) opencv"
  entries :: "dir_entry list"
  clock_of :: "string \<Rightarrow> clock"
  indeterminate :: real

text \<open>
  The loop of lines 163 to 167 (the same in all three programs): the entries whose paths are
  pushed on \<^verbatim>\<open>image_queue\<close>, in push order.
\<close>

definition enumerated :: "dir_entry list \<Rightarrow> dir_entry list" where
  "enumerated es =
     filter (\<lambda>entry. extension entry = ''.tiff'' \<and> filename entry \<noteq> ''background.tiff'') es"

text \<open>
  The variables the consumer task updates. \<^verbatim>\<open>total_time\<close>, \<^verbatim>\<open>number\<close> and
  \<^verbatim>\<open>max_process_time\<close> are locals of \<^verbatim>\<open>run_experiment\<close> in all three programs;
  \<^verbatim>\<open>results\<close>, \<^verbatim>\<open>skipped_images\<close> and \<^verbatim>\<open>max_time_image\<close> are the caller's vectors and pair
  in findcontour\_time\_10000.cpp and time\_skip.cpp (with different element types);
  \<^verbatim>\<open>total_findcontour_time\<close> exists in findcontour\_time\_10000.cpp only and
  \<^verbatim>\<open>max_processing_time_image\<close> in max\_time.cpp only. \<^verbatim>\<open>number\<close> is an
  \<^verbatim>\<open>atomic<int>\<close>: a word of 32 bits, read as a signed number by \<open>sint\<close>, whose
  increment wraps around. (max\_time.cpp increments it by \<^verbatim>\<open>number = number + 1\<close>, an
  \<^verbatim>\<open>int\<close> addition that is undefined at the largest value; the model wraps there too.)
\<close>

record counters =
  total_time :: real
  number :: "32 word"
  max_process_time :: real

record ('r, 's) harness = counters +
  results :: "'r list"
  skipped_images :: "'s list"
  max_time_image :: "string \<times> real"

record ('r, 's) harness_fc = "('r, 's) harness" +
  total_findcontour_time :: real

record harness_mt = counters +
  max_processing_time_image :: string

type_synonym result_fc = "string \<times> real \<times> real \<times> real \<times> real"

type_synonym state_fc = "(result_fc, string) harness_fc"

text \<open>
  Lines 143 to 151, the block under the first \<^verbatim>\<open>lock_guard\<close>, in statement order.
\<close>

definition record_success_fc :: "string \<Rightarrow> ContourMetrics \<Rightarrow> real \<Rightarrow> real \<Rightarrow> state_fc \<Rightarrow> state_fc" where
  "record_success_fc path m process_time findcontour_time st =
     (let st1 = st\<lparr>total_time := total_time st + process_time\<rparr>;
          st2 = st1\<lparr>total_findcontour_time := total_findcontour_time st1 + findcontour_time\<rparr>;
          st3 = (if process_time > max_process_time st2
                 then st2\<lparr>max_process_time := process_time,
                          max_time_image := (path, process_time)\<rparr>
                 else st2);
          st4 = st3\<lparr>number := number st3 + 1\<rparr>
      in st4\<lparr>results := results st4 @
            [(path, circularity_ratio m, area_ratio m, process_time, findcontour_time)]\<rparr>)"

text \<open>Lines 153 and 154, the block under the second \<^verbatim>\<open>lock_guard\<close>.\<close>

definition record_skip_fc :: "string \<Rightarrow> state_fc \<Rightarrow> state_fc" where
  "record_skip_fc path st = st\<lparr>skipped_images := skipped_images st @ [path]\<rparr>"

text \<open>
  Lines 136 to 155: what the consumer does with one popped path. \<^verbatim>\<open>contours\<close> and
  \<^verbatim>\<open>metrics\<close> are fresh, \<^verbatim>\<open>process_time\<close> and \<^verbatim>\<open>findcontour_time\<close> are uninitialised.
\<close>

definition consume_fc :: "('mat, 'cnt) world \<Rightarrow> 'mat \<Rightarrow> dir_entry \<Rightarrow> state_fc \<Rightarrow> state_fc" where
  "consume_fc w blurred_bg path st =
     (let out = process_single_image_fc (lib w) (clock_of w (entry_path path)) (entry_path path)
                  blurred_bg
                  \<lparr>contours = [], metrics = ContourMetrics0, duration = indeterminate w,
                   findcontour_duration = indeterminate w\<rparr>;
          process_time = duration out;
          findcontour_time = findcontour_duration out
      in if process_time > 0
         then record_success_fc (entry_path path) (metrics out) process_time findcontour_time st
         else record_skip_fc (entry_path path) st)"

text \<open>
  \<^verbatim>\<open>run_experiment\<close>. The program starts one consumer task (a single \<^verbatim>\<open>group.run\<close>), which
  pops until the producer has set \<^verbatim>\<open>processing_complete\<close> and the queue is empty; the queue is
  first-in first-out, so that task handles every pushed path once, in push order, and
  \<^verbatim>\<open>group.wait()\<close> returns after the last one. The result is what was written to
  \<^verbatim>\<open>cerr\<close> and the variables at the return; on the early return the locals keep their
  initial values.
\<close>

definition run_experiment_fc ::
    "('mat, 'cnt) world \<Rightarrow> string \<Rightarrow> result_fc list \<Rightarrow> string list \<Rightarrow> string \<times> real
       \<Rightarrow> string list \<times> state_fc" where
  "run_experiment_fc w directory results0 skipped_images0 max_time_image0 =
     (let background_path = directory @ ''/background.tiff'';
          background = imread (lib w) background_path;
          st0 = \<lparr>total_time = 0, number = 0, max_process_time = 0,
                 results = results0, skipped_images = skipped_images0,
                 max_time_image = max_time_image0, total_findcontour_time = 0\<rparr>
      in if Mat_empty (lib w) background
         then ([''Error: Could not read background image: '' @ background_path], st0)
         else
           let blurred_bg = GaussianBlur (lib w) background
           in ([], foldl (\<lambda>st path. consume_fc w blurred_bg path st) st0
                      (enumerated (entries w))))"

text \<open>
  \<^verbatim>\<open>main\<close>, with the compiled-in \<^verbatim>\<open>repetitions = 10000\<close> and the directory as parameters.
  Repetition \<open>i\<close> finds the world \<open>worlds i\<close>. The progress bar is not modelled. The state
  of the loop:
\<close>

record main_state_fc =
  m_results :: "result_fc list"
  m_skipped_images :: "string list"
  m_max_time_image :: "string \<times> real"
  total_circularity_ratio :: real
  total_area_ratio :: real
  total_processing_time :: real
  m_total_findcontour_time :: real
  cerr :: "string list"

text \<open>Lines 206 to 211: the sums over one run's \<^verbatim>\<open>results\<close>.\<close>

definition add_result_fc :: "main_state_fc \<Rightarrow> result_fc \<Rightarrow> main_state_fc" where
  "add_result_fc ms r =
     (case r of (p, cr, ar, pt, ft) \<Rightarrow>
        ms\<lparr>total_circularity_ratio := total_circularity_ratio ms + cr,
           total_area_ratio := total_area_ratio ms + ar,
           total_processing_time := total_processing_time ms + pt,
           m_total_findcontour_time := m_total_findcontour_time ms + ft\<rparr>)"

text \<open>Lines 200 to 211: the body of the repetition loop.\<close>

definition repetition_fc :: "string \<Rightarrow> ('mat, 'cnt) world \<Rightarrow> main_state_fc \<Rightarrow> main_state_fc" where
  "repetition_fc directory w ms =
     (case run_experiment_fc w directory [] [] ([], 0) of
        (err, st) \<Rightarrow>
          foldl add_result_fc
            (ms\<lparr>m_results := results st, m_skipped_images := skipped_images st,
                m_max_time_image := max_time_image st, cerr := cerr ms @ err\<rparr>)
            (results st))"

record main_out_fc =
  average_circularity_ratio :: real
  average_area_ratio :: real
  average_processing_time :: real
  average_findcontour_time :: real
  stderr_text :: "string list"
  exit_status :: int

definition main_loop_fc :: "string \<Rightarrow> nat \<Rightarrow> (nat \<Rightarrow> ('mat, 'cnt) world) \<Rightarrow> main_state_fc" where
  "main_loop_fc directory repetitions worlds =
     foldl (\<lambda>ms i. repetition_fc directory (worlds i) ms)
       \<lparr>m_results = [], m_skipped_images = [], m_max_time_image = ([], 0),
        total_circularity_ratio = 0, total_area_ratio = 0, total_processing_time = 0,
        m_total_findcontour_time = 0, cerr = []\<rparr>
       [0..<repetitions]"

definition main_fc :: "string \<Rightarrow> nat \<Rightarrow> (nat \<Rightarrow> ('mat, 'cnt) world) \<Rightarrow> main_out_fc" where
  "main_fc directory repetitions worlds =
     (let ms = main_loop_fc directory repetitions worlds;
          total_processed_images = length (m_results ms) * repetitions
      in \<lparr>average_circularity_ratio =
             (if total_processed_images > 0
              then total_circularity_ratio ms / real total_processed_images else 0),
          average_area_ratio =
             (if total_processed_images > 0
              then total_area_ratio ms / real total_processed_images else 0),
          average_processing_time =
             (if total_processed_images > 0
              then total_processing_time ms / real total_processed_images else 0),
          average_findcontour_time =
             (if total_processed_images > 0
              then m_total_findcontour_time ms / real total_processed_images else 0),
          stderr_text = cerr ms,
          exit_status = 0\<rparr>)"

section \<open>time\_skip.cpp: the frame processor with a time budget, and its harness\<close>

text \<open>
  \<^verbatim>\<open>process_single_image\<close> of time\_skip.cpp returns a \<^verbatim>\<open>bool\<close> next to its reference
  parameters. Clock reading \<open>1\<close> is the first \<^verbatim>\<open>current_time\<close> (line 87), reading \<open>2\<close> the
  second (line 96).
\<close>

definition process_single_image_ts ::
    "('mat, 'cnt) opencv \<Rightarrow> clock \<Rightarrow> string \<Rightarrow> 'mat \<Rightarrow> 'cnt outs \<Rightarrow> bool \<times> 'cnt outs" where
  "process_single_image_ts cv now image_path blurred_bg out =
     (let image = imread cv image_path;
          start_time = now 0;
          blurred = GaussianBlur cv image;
          bg_sub = subtract cv blurred_bg blurred;
          binary = threshold cv bg_sub;
          dilate1 = dilate cv binary 2;
          erode1 = erode cv dilate1 3;
          dilate2 = dilate cv erode1 1;
          current_time = now 1;
          out1 = out\<lparr>duration := current_time - start_time\<rparr>
      in if duration out1 > 200 then (False, out1)
         else
           let out2 = out1\<lparr>contours := findContours cv dilate2\<rparr>;
               current_time = now 2;
               out3 = out2\<lparr>duration := current_time - start_time\<rparr>
           in if duration out3 > 200 then (False, out3)
              else if contours out3 \<noteq> []
              then (True, out3\<lparr>metrics := calculate_contour_metrics cv (contours out3)\<rparr>)
              else (True, out3))"

type_synonym result_ts = "string \<times> real \<times> real \<times> real"

type_synonym state_ts = "(result_ts, string \<times> real) harness"

text \<open>Lines 142 to 149 of time\_skip.cpp, the block under the first \<^verbatim>\<open>lock_guard\<close>.\<close>

definition record_success_ts :: "string \<Rightarrow> ContourMetrics \<Rightarrow> real \<Rightarrow> state_ts \<Rightarrow> state_ts" where
  "record_success_ts path m process_time st =
     (let st1 = st\<lparr>total_time := total_time st + process_time\<rparr>;
          st2 = (if process_time > max_process_time st1
                 then st1\<lparr>max_process_time := process_time,
                          max_time_image := (path, process_time)\<rparr>
                 else st1);
          st3 = st2\<lparr>number := number st2 + 1\<rparr>
      in st3\<lparr>results := results st3 @
            [(path, circularity_ratio m, area_ratio m, process_time)]\<rparr>)"

text \<open>Lines 151 and 152 of time\_skip.cpp.\<close>

definition record_skip_ts :: "string \<Rightarrow> real \<Rightarrow> state_ts \<Rightarrow> state_ts" where
  "record_skip_ts path process_time st =
     st\<lparr>skipped_images := skipped_images st @ [(path, process_time)]\<rparr>"

text \<open>Lines 136 to 153 of time\_skip.cpp: one popped path.\<close>

definition consume_ts :: "('mat, 'cnt) world \<Rightarrow> 'mat \<Rightarrow> dir_entry \<Rightarrow> state_ts \<Rightarrow> state_ts" where
  "consume_ts w blurred_bg path st =
     (case process_single_image_ts (lib w) (clock_of w (entry_path path)) (entry_path path)
             blurred_bg
             \<lparr>contours = [], metrics = ContourMetrics0, duration = indeterminate w\<rparr> of
        (processed, out) \<Rightarrow>
          let process_time = duration out
          in if processed
             then record_success_ts (entry_path path) (metrics out) process_time st
             else record_skip_ts (entry_path path) process_time st)"

definition run_experiment_ts ::
    "('mat, 'cnt) world \<Rightarrow> string \<Rightarrow> result_ts list \<Rightarrow> (string \<times> real) list \<Rightarrow> string \<times> real
       \<Rightarrow> string list \<times> state_ts" where
  "run_experiment_ts w directory results0 skipped_images0 max_time_image0 =
     (let background_path = directory @ ''/background.tiff'';
          background = imread (lib w) background_path;
          st0 = \<lparr>total_time = 0, number = 0, max_process_time = 0,
                 results = results0, skipped_images = skipped_images0,
                 max_time_image = max_time_image0\<rparr>
      in if Mat_empty (lib w) background
         then ([''Error: Could not read background image: '' @ background_path], st0)
         else
           let blurred_bg = GaussianBlur (lib w) background
           in ([], foldl (\<lambda>st path. consume_ts w blurred_bg path st) st0
                      (enumerated (entries w))))"

section \<open>max\_time.cpp: the frequency-ranking harness\<close>

text \<open>
  \<^verbatim>\<open>process_single_image\<close> of max\_time.cpp has neither the pixel-count window nor the time
  budget. Clock reading \<open>1\<close> is \<^verbatim>\<open>end_time\<close>.
\<close>

definition process_single_image_mt ::
    "('mat, 'cnt) opencv \<Rightarrow> clock \<Rightarrow> string \<Rightarrow> 'mat \<Rightarrow> 'cnt outs \<Rightarrow> 'cnt outs" where
  "process_single_image_mt cv now image_path blurred_bg out =
     (let image = imread cv image_path;
          start_time = now 0;
          blurred = GaussianBlur cv image;
          bg_sub = subtract cv blurred_bg blurred;
          binary = threshold cv bg_sub;
          dilate1 = dilate cv binary 2;
          erode1 = erode cv dilate1 3;
          dilate2 = dilate cv erode1 1;
          out1 = out\<lparr>contours := findContours cv dilate2\<rparr>;
          end_time = now 1;
          out2 = out1\<lparr>duration := end_time - start_time\<rparr>
      in if contours out2 \<noteq> []
         then out2\<lparr>metrics := calculate_contour_metrics cv (contours out2)\<rparr>
         else out2)"

text \<open>Lines 123 to 129 of max\_time.cpp, the block under the \<^verbatim>\<open>lock_guard\<close>.\<close>

definition record_success_mt :: "dir_entry \<Rightarrow> real \<Rightarrow> harness_mt \<Rightarrow> harness_mt" where
  "record_success_mt path process_time st =
     (let st1 = st\<lparr>total_time := total_time st + process_time\<rparr>;
          st2 = (if process_time > max_process_time st1
                 then st1\<lparr>max_process_time := process_time,
                          max_processing_time_image := filename path\<rparr>
                 else st1)
      in st2\<lparr>number := number st2 + 1\<rparr>)"

text \<open>
  Lines 117 to 130 of max\_time.cpp: one popped path. The \<^verbatim>\<open>if\<close> has no \<^verbatim>\<open>else\<close>.
\<close>

definition consume_mt :: "('mat, 'cnt) world \<Rightarrow> 'mat \<Rightarrow> dir_entry \<Rightarrow> harness_mt \<Rightarrow> harness_mt" where
  "consume_mt w blurred_bg path st =
     (let out = process_single_image_mt (lib w) (clock_of w (entry_path path)) (entry_path path)
                  blurred_bg
                  \<lparr>contours = [], metrics = ContourMetrics0, duration = indeterminate w\<rparr>;
          process_time = duration out
      in if process_time > 0 then record_success_mt path process_time st else st)"

text \<open>
  \<^verbatim>\<open>run_experiment\<close> of max\_time.cpp gets the blurred background from \<^verbatim>\<open>main\<close>. The
  result is the variables of the run at the return; line 147 copies \<^verbatim>\<open>max_process_time\<close>
  into the caller's \<^verbatim>\<open>max_processing_time\<close>.
\<close>

definition run_experiment_mt :: "('mat, 'cnt) world \<Rightarrow> 'mat \<Rightarrow> string \<Rightarrow> harness_mt" where
  "run_experiment_mt w blurred_bg max_processing_time_image0 =
     foldl (\<lambda>st path. consume_mt w blurred_bg path st)
       \<lparr>total_time = 0, number = 0, max_process_time = 0,
        max_processing_time_image = max_processing_time_image0\<rparr>
       (enumerated (entries w))"

section \<open>A frame that cannot be read\<close>

text \<open>
  \<^verbatim>\<open>process_single_image\<close> of findcontour\_time\_10000.cpp hands what \<^verbatim>\<open>imread\<close>
  returned (line 70) to \<^verbatim>\<open>GaussianBlur\<close> (line 74) without testing \<^verbatim>\<open>image.empty()\<close>.
  When that call throws, the exception leaves \<^verbatim>\<open>process_single_image\<close> and the consumer's
  lambda, neither of which has a handler, so none of lines 142 to 155 is executed for the
  path; \<^verbatim>\<open>group.wait()\<close> (line 170) throws it again in \<^verbatim>\<open>run_experiment\<close>, and
  \<^verbatim>\<open>main\<close> has no handler either. A call either raises or returns a value. The three
  definitions below are \<^verbatim>\<open>process_single_image\<close>, the consumer's handling of one popped
  path, and \<^verbatim>\<open>run_experiment\<close> with that throw; where nothing is thrown they return what
  \<open>process_single_image_fc\<close>, \<open>consume_fc\<close> and \<open>run_experiment_fc\<close> give.
\<close>

datatype 'a call = Raised | Returned 'a

definition process_single_image_fc_call ::
    "('mat, 'cnt) opencv \<Rightarrow> clock \<Rightarrow> string \<Rightarrow> 'mat \<Rightarrow> 'cnt outs_fc \<Rightarrow> 'cnt outs_fc call" where
  "process_single_image_fc_call cv now image_path blurred_bg out =
     (let image = imread cv image_path
      in if GaussianBlur_raises cv image then Raised
         else Returned (process_single_image_fc cv now image_path blurred_bg out))"

definition consume_fc_call ::
    "('mat, 'cnt) world \<Rightarrow> 'mat \<Rightarrow> dir_entry \<Rightarrow> state_fc \<Rightarrow> state_fc call" where
  "consume_fc_call w blurred_bg path st =
     (case process_single_image_fc_call (lib w) (clock_of w (entry_path path)) (entry_path path)
             blurred_bg
             \<lparr>contours = [], metrics = ContourMetrics0, duration = indeterminate w,
              findcontour_duration = indeterminate w\<rparr> of
        Raised \<Rightarrow> Raised
      | Returned out \<Rightarrow>
          let process_time = duration out;
              findcontour_time = findcontour_duration out
          in Returned
               (if process_time > 0
                then record_success_fc (entry_path path) (metrics out) process_time
                       findcontour_time st
                else record_skip_fc (entry_path path) st))"

definition run_experiment_fc_call ::
    "('mat, 'cnt) world \<Rightarrow> string \<Rightarrow> result_fc list \<Rightarrow> string list \<Rightarrow> string \<times> real
       \<Rightarrow> (string list \<times> state_fc) call" where
  "run_experiment_fc_call w directory results0 skipped_images0 max_time_image0 =
     (let background_path = directory @ ''/background.tiff'';
          background = imread (lib w) background_path;
          st0 = \<lparr>total_time = 0, number = 0, max_process_time = 0,
                 results = results0, skipped_images = skipped_images0,
                 max_time_image = max_time_image0, total_findcontour_time = 0\<rparr>
      in if Mat_empty (lib w) background
         then Returned ([''Error: Could not read background image: '' @ background_path], st0)
         else if GaussianBlur_raises (lib w) background then Raised
         else
           let blurred_bg = GaussianBlur (lib w) background
           in case foldl (\<lambda>r path. case r of
                                      Raised \<Rightarrow> Raised
                                    | Returned st \<Rightarrow> consume_fc_call w blurred_bg path st)
                     (Returned st0) (enumerated (entries w)) of
                Raised \<Rightarrow> Raised
              | Returned st \<Rightarrow> Returned ([], st))"

section \<open>A stand-in library for concrete runs\<close>

text \<open>
  To evaluate the programs on concrete inputs the library is replaced by a deterministic
  stand-in. A matrix is either the empty matrix \<^verbatim>\<open>imread\<close> returns for a file it cannot
  read, or an image given by what the pipeline measures on it: its count of non-zero pixels
  and its contours. A contour is given by its area, its perimeter, and the area and the
  perimeter of its convex hull. On an image, blurring, thresholding, dilating and eroding
  return their argument, and subtracting from the background returns the frame. On the empty
  matrix \<^verbatim>\<open>GaussianBlur\<close> raises, as OpenCV's does, so that no later call of the pipeline
  is reached with it: there the stand-in says nothing about what \<^verbatim>\<open>countNonZero\<close> and
  \<^verbatim>\<open>findContours\<close> return.
\<close>

type_synonym fake_cnt = "real \<times> real \<times> real \<times> real"

datatype fake_mat = NoImage | Image int "fake_cnt list"

definition fake_cv :: "(string \<Rightarrow> fake_mat) \<Rightarrow> (fake_mat, fake_cnt) opencv" where
  "fake_cv files =
     \<lparr>imread = files,
      Mat_empty = (\<lambda>m. m = NoImage),
      GaussianBlur = (\<lambda>m. m),
      GaussianBlur_raises = (\<lambda>m. m = NoImage),
      subtract = (\<lambda>bg m. m),
      threshold = (\<lambda>m. m),
      countNonZero = (\<lambda>m. case m of Image n cs \<Rightarrow> n),
      dilate = (\<lambda>m n. m),
      erode = (\<lambda>m n. m),
      findContours = (\<lambda>m. case m of Image n cs \<Rightarrow> cs),
      contourArea = (\<lambda>(a, p, ha, hp). a),
      arcLength = (\<lambda>(a, p, ha, hp). p),
      convexHull = (\<lambda>(a, p, ha, hp). (ha, hp, ha, hp))\<rparr>"

text \<open>
  A directory entry \<^verbatim>\<open>dir/name.tiff\<close>, and a clock that gives the listed readings in the
  order of the calls.
\<close>

definition tiff :: "string \<Rightarrow> string \<Rightarrow> dir_entry" where
  "tiff dir name =
     \<lparr>entry_path = dir @ ''/'' @ name @ ''.tiff'', extension = ''.tiff'',
      filename = name @ ''.tiff''\<rparr>"

definition ticks :: "real list \<Rightarrow> clock" where
  "ticks ts n = (if n < length ts then ts ! n else 0)"

text \<open>
  A concrete directory \<^verbatim>\<open>dir\<close>: the background, a frame \<^verbatim>\<open>a\<close> with too few detection
  pixels, a frame \<^verbatim>\<open>b\<close> inside the window with two contours, and a frame \<^verbatim>\<open>c\<close> inside the
  window with no contour; every other path is unreadable.
\<close>

definition shape_a :: fake_cnt where
  "shape_a = (4, 8, 4, 8)"

definition shape_b :: fake_cnt where
  "shape_b = (9, 12, 16, 16)"

definition demo_files :: "string \<Rightarrow> fake_mat" where
  "demo_files p =
     (if p = ''dir/background.tiff'' then Image 0 []
      else if p = ''dir/a.tiff'' then Image 100 [shape_a]
      else if p = ''dir/b.tiff'' then Image 300 [shape_a, shape_b]
      else if p = ''dir/c.tiff'' then Image 400 []
      else NoImage)"

definition demo_clock :: "string \<Rightarrow> clock" where
  "demo_clock p =
     (if p = ''dir/b.tiff'' then ticks [1000, 1010, 1030, 1050]
      else if p = ''dir/c.tiff'' then ticks [2000, 2040, 2100, 2120]
      else ticks [0, 10, 30, 40])"

definition demo_world :: "(fake_mat, fake_cnt) world" where
  "demo_world =
     \<lparr>lib = fake_cv demo_files,
      entries = [tiff ''dir'' ''a'', tiff ''dir'' ''background'', tiff ''dir'' ''b'',
                 tiff ''dir'' ''c''],
      clock_of = demo_clock,
      indeterminate = 7\<rparr>"

section \<open>Names for stating properties of a run\<close>

text \<open>
  What the call of \<^verbatim>\<open>process_single_image\<close> in the consumer leaves in the consumer's
  locals for one popped path (line 140 of findcontour\_time\_10000.cpp, line 139 of
  time\_skip.cpp, line 120 of max\_time.cpp), the consumer's test on it (\<^verbatim>\<open>process_time > 0\<close>,
  or the returned \<^verbatim>\<open>processed\<close> in time\_skip.cpp), and the tuples pushed on \<^verbatim>\<open>results\<close>
  and \<^verbatim>\<open>skipped_images\<close>.
\<close>

definition outcome_fc :: "('mat, 'cnt) world \<Rightarrow> 'mat \<Rightarrow> dir_entry \<Rightarrow> 'cnt outs_fc" where
  "outcome_fc w blurred_bg path =
     process_single_image_fc (lib w) (clock_of w (entry_path path)) (entry_path path) blurred_bg
       \<lparr>contours = [], metrics = ContourMetrics0, duration = indeterminate w,
        findcontour_duration = indeterminate w\<rparr>"

definition processed_fc :: "('mat, 'cnt) world \<Rightarrow> 'mat \<Rightarrow> dir_entry \<Rightarrow> bool" where
  "processed_fc w blurred_bg path \<longleftrightarrow> duration (outcome_fc w blurred_bg path) > 0"

definition result_fc_of :: "('mat, 'cnt) world \<Rightarrow> 'mat \<Rightarrow> dir_entry \<Rightarrow> result_fc" where
  "result_fc_of w blurred_bg path =
     (entry_path path,
      circularity_ratio (metrics (outcome_fc w blurred_bg path)),
      area_ratio (metrics (outcome_fc w blurred_bg path)),
      duration (outcome_fc w blurred_bg path),
      findcontour_duration (outcome_fc w blurred_bg path))"

definition outcome_ts :: "('mat, 'cnt) world \<Rightarrow> 'mat \<Rightarrow> dir_entry \<Rightarrow> bool \<times> 'cnt outs" where
  "outcome_ts w blurred_bg path =
     process_single_image_ts (lib w) (clock_of w (entry_path path)) (entry_path path) blurred_bg
       \<lparr>contours = [], metrics = ContourMetrics0, duration = indeterminate w\<rparr>"

definition processed_ts :: "('mat, 'cnt) world \<Rightarrow> 'mat \<Rightarrow> dir_entry \<Rightarrow> bool" where
  "processed_ts w blurred_bg path \<longleftrightarrow> fst (outcome_ts w blurred_bg path)"

definition result_ts_of :: "('mat, 'cnt) world \<Rightarrow> 'mat \<Rightarrow> dir_entry \<Rightarrow> result_ts" where
  "result_ts_of w blurred_bg path =
     (entry_path path,
      circularity_ratio (metrics (snd (outcome_ts w blurred_bg path))),
      area_ratio (metrics (snd (outcome_ts w blurred_bg path))),
      duration (snd (outcome_ts w blurred_bg path)))"

definition skip_ts_of :: "('mat, 'cnt) world \<Rightarrow> 'mat \<Rightarrow> dir_entry \<Rightarrow> string \<times> real" where
  "skip_ts_of w blurred_bg path =
     (entry_path path, duration (snd (outcome_ts w blurred_bg path)))"

definition outcome_mt :: "('mat, 'cnt) world \<Rightarrow> 'mat \<Rightarrow> dir_entry \<Rightarrow> 'cnt outs" where
  "outcome_mt w blurred_bg path =
     process_single_image_mt (lib w) (clock_of w (entry_path path)) (entry_path path) blurred_bg
       \<lparr>contours = [], metrics = ContourMetrics0, duration = indeterminate w\<rparr>"

definition processed_mt :: "('mat, 'cnt) world \<Rightarrow> 'mat \<Rightarrow> dir_entry \<Rightarrow> bool" where
  "processed_mt w blurred_bg path \<longleftrightarrow> duration (outcome_mt w blurred_bg path) > 0"

text \<open>\<^verbatim>\<open>get<3>\<close> of a tuple of \<^verbatim>\<open>results\<close>: the processing time.\<close>

definition process_time_fc :: "result_fc \<Rightarrow> real" where
  "process_time_fc r = (case r of (p, cr, ar, pt, ft) \<Rightarrow> pt)"

text \<open>
  The background as \<^verbatim>\<open>run_experiment\<close> reads it, and the blurred background the consumer
  works with.
\<close>

definition background_of :: "('mat, 'cnt) world \<Rightarrow> string \<Rightarrow> 'mat" where
  "background_of w directory = imread (lib w) (directory @ ''/background.tiff'')"

definition blurred_bg_of :: "('mat, 'cnt) world \<Rightarrow> string \<Rightarrow> 'mat" where
  "blurred_bg_of w directory = GaussianBlur (lib w) (background_of w directory)"

text \<open>
  The arg-max of \<open>f\<close> over a list with the first one seen winning: \<open>r\<close> stands at a
  position of \<open>xs\<close> such that everything before it is strictly smaller and nothing after it
  is greater.
\<close>

definition first_maximum :: "('a \<Rightarrow> real) \<Rightarrow> 'a list \<Rightarrow> 'a \<Rightarrow> bool" where
  "first_maximum f xs r \<longleftrightarrow>
     (\<exists>pre post. xs = pre @ r # post
        \<and> (\<forall>x\<in>set pre. f x < f r) \<and> (\<forall>x\<in>set post. f x \<le> f r))"

text \<open>The processing time measured for a path in max\_time.cpp.\<close>

definition process_time_mt :: "('mat, 'cnt) world \<Rightarrow> 'mat \<Rightarrow> dir_entry \<Rightarrow> real" where
  "process_time_mt w blurred_bg path = duration (outcome_mt w blurred_bg path)"

text \<open>
  \<^verbatim>\<open>get<1>\<close>, \<^verbatim>\<open>get<2>\<close> and \<^verbatim>\<open>get<4>\<close> of a tuple of \<^verbatim>\<open>results\<close>, and every Success of
  every repetition of \<^verbatim>\<open>main\<close> in findcontour\_time\_10000.cpp: the \<^verbatim>\<open>results\<close> of the runs,
  one run after the other.
\<close>

definition circularity_ratio_fc :: "result_fc \<Rightarrow> real" where
  "circularity_ratio_fc r = (case r of (p, cr, ar, pt, ft) \<Rightarrow> cr)"

definition area_ratio_fc :: "result_fc \<Rightarrow> real" where
  "area_ratio_fc r = (case r of (p, cr, ar, pt, ft) \<Rightarrow> ar)"

definition findcontour_time_fc :: "result_fc \<Rightarrow> real" where
  "findcontour_time_fc r = (case r of (p, cr, ar, pt, ft) \<Rightarrow> ft)"

definition run_results_fc :: "string \<Rightarrow> ('mat, 'cnt) world \<Rightarrow> result_fc list" where
  "run_results_fc directory w = results (snd (run_experiment_fc w directory [] [] ([], 0)))"

definition all_successes_fc ::
    "string \<Rightarrow> nat \<Rightarrow> (nat \<Rightarrow> ('mat, 'cnt) world) \<Rightarrow> result_fc list" where
  "all_successes_fc directory repetitions worlds =
     concat (map (\<lambda>i. run_results_fc directory (worlds i)) [0..<repetitions])"

text \<open>
  Four further concrete worlds: the directory after the frame \<^verbatim>\<open>c.tiff\<close> has been removed,
  a directory whose \<^verbatim>\<open>background.tiff\<close> cannot be read, the directory with one more entry,
  \<^verbatim>\<open>missing.tiff\<close>, which \<^verbatim>\<open>imread\<close> cannot read, and the directory processed so fast
  that the clock gives the same reading each time it is read.
\<close>

definition demo_world_without_c :: "(fake_mat, fake_cnt) world" where
  "demo_world_without_c =
     demo_world\<lparr>entries := [tiff ''dir'' ''a'', tiff ''dir'' ''background'', tiff ''dir'' ''b'']\<rparr>"

definition no_background_world :: "(fake_mat, fake_cnt) world" where
  "no_background_world =
     demo_world\<lparr>lib := fake_cv (\<lambda>p. if p = ''dir/background.tiff'' then NoImage
                                    else demo_files p)\<rparr>"

definition unreadable_world :: "(fake_mat, fake_cnt) world" where
  "unreadable_world =
     demo_world\<lparr>entries := [tiff ''dir'' ''a'', tiff ''dir'' ''background'',
                            tiff ''dir'' ''missing'', tiff ''dir'' ''b'', tiff ''dir'' ''c'']\<rparr>"

definition stall_world :: "(fake_mat, fake_cnt) world" where
  "stall_world = demo_world\<lparr>clock_of := (\<lambda>p. ticks [5, 5, 5, 5])\<rparr>"

section \<open>The consumer of findcontour\_time\_10000.cpp, statement by statement\<close>

text \<open>
  To speak about interleavings, the lambda of lines 132 to 160 is also modelled as a
  transition system. A task is at one of the following places: the loop test (line 133), the
  \<^verbatim>\<open>try_pop\<close> with the processing of the popped path (lines 134 to 140), the test of line
  142, the construction of the \<^verbatim>\<open>lock_guard\<close> of line 143 (which waits for the mutex), the
  statements of lines 144 to 151 one by one, the end of that scope (line 152, where the guard
  releases the mutex), the \<^verbatim>\<open>lock_guard\<close> of line 153, the \<^verbatim>\<open>push_back\<close> of line 154, the
  end of that scope (line 155), and the end of the lambda (line 160). Each transition is one
  step; steps of different tasks and of the producer interleave in any order. The program
  starts one such task; the model runs any number of them.
\<close>

datatype place =
    L133 | L135 | L142 | L143 | L144 | L145 | L146 | L147 | L148 | L150 | L151 | L152
  | L153 | L154 | L155 | L160

text \<open>The locals of a task: where it is, the popped path, and what processing left.\<close>

record 'cnt task =
  pc :: place
  popped :: dir_entry
  locals :: "'cnt outs_fc"

text \<open>
  The shared variables: the queue, the flag, the mutex with the index of the task that holds
  it, the variables the consumer updates, and the directory entries the producer has not yet
  looked at.
\<close>

record 'cnt system =
  tasks :: "'cnt task list"
  image_queue :: "dir_entry list"
  processing_complete :: bool
  mtx :: "nat option"
  vars :: state_fc
  remaining_entries :: "dir_entry list"

text \<open>The statements of lines 144 to 154 as updates of the shared variables.\<close>

definition line144 :: "'cnt task \<Rightarrow> state_fc \<Rightarrow> state_fc" where
  "line144 t v = v\<lparr>total_time := total_time v + duration (locals t)\<rparr>"

definition line145 :: "'cnt task \<Rightarrow> state_fc \<Rightarrow> state_fc" where
  "line145 t v = v\<lparr>total_findcontour_time := total_findcontour_time v + findcontour_duration (locals t)\<rparr>"

definition line147 :: "'cnt task \<Rightarrow> state_fc \<Rightarrow> state_fc" where
  "line147 t v = v\<lparr>max_process_time := duration (locals t)\<rparr>"

definition line148 :: "'cnt task \<Rightarrow> state_fc \<Rightarrow> state_fc" where
  "line148 t v = v\<lparr>max_time_image := (entry_path (popped t), duration (locals t))\<rparr>"

definition line150 :: "'cnt task \<Rightarrow> state_fc \<Rightarrow> state_fc" where
  "line150 t v = v\<lparr>number := number v + 1\<rparr>"

definition line151 :: "'cnt task \<Rightarrow> state_fc \<Rightarrow> state_fc" where
  "line151 t v =
     v\<lparr>results := results v @
        [(entry_path (popped t), circularity_ratio (metrics (locals t)),
          area_ratio (metrics (locals t)), duration (locals t), findcontour_duration (locals t))]\<rparr>"

definition line154 :: "'cnt task \<Rightarrow> state_fc \<Rightarrow> state_fc" where
  "line154 t v = v\<lparr>skipped_images := skipped_images v @ [entry_path (popped t)]\<rparr>"

text \<open>
  One step of task \<open>i\<close>. A task that waits for the mutex, and a task that has returned,
  leave the system as it is.
\<close>

definition consumer_step ::
    "('mat, 'cnt) world \<Rightarrow> 'mat \<Rightarrow> nat \<Rightarrow> 'cnt system \<Rightarrow> 'cnt system" where
  "consumer_step w blurred_bg i s =
     (if i \<ge> length (tasks s) then s
      else
        let t = tasks s ! i;
            goto = (\<lambda>l. s\<lparr>tasks := (tasks s)[i := t\<lparr>pc := l\<rparr>]\<rparr>)
        in case pc t of
             L133 \<Rightarrow>
               (if \<not> processing_complete s \<or> image_queue s \<noteq> [] then goto L135
                else goto L160)
           | L135 \<Rightarrow>
               (case image_queue s of
                  [] \<Rightarrow> goto L133
                | p # rest \<Rightarrow>
                    s\<lparr>image_queue := rest,
                      tasks := (tasks s)[i := \<lparr>pc = L142, popped = p,
                                              locals = outcome_fc w blurred_bg p\<rparr>]\<rparr>)
           | L142 \<Rightarrow> (if duration (locals t) > 0 then goto L143 else goto L153)
           | L143 \<Rightarrow> (if mtx s = None then (goto L144)\<lparr>mtx := Some i\<rparr> else s)
           | L144 \<Rightarrow> (goto L145)\<lparr>vars := line144 t (vars s)\<rparr>
           | L145 \<Rightarrow> (goto L146)\<lparr>vars := line145 t (vars s)\<rparr>
           | L146 \<Rightarrow>
               (if duration (locals t) > max_process_time (vars s) then goto L147 else goto L150)
           | L147 \<Rightarrow> (goto L148)\<lparr>vars := line147 t (vars s)\<rparr>
           | L148 \<Rightarrow> (goto L150)\<lparr>vars := line148 t (vars s)\<rparr>
           | L150 \<Rightarrow> (goto L151)\<lparr>vars := line150 t (vars s)\<rparr>
           | L151 \<Rightarrow> (goto L152)\<lparr>vars := line151 t (vars s)\<rparr>
           | L152 \<Rightarrow> (goto L133)\<lparr>mtx := None\<rparr>
           | L153 \<Rightarrow> (if mtx s = None then (goto L154)\<lparr>mtx := Some i\<rparr> else s)
           | L154 \<Rightarrow> (goto L155)\<lparr>vars := line154 t (vars s)\<rparr>
           | L155 \<Rightarrow> (goto L133)\<lparr>mtx := None\<rparr>
           | L160 \<Rightarrow> s)"

text \<open>
  One step of the producer (lines 163 to 169): it looks at the next directory entry and
  pushes it if it passes the filter, and sets \<^verbatim>\<open>processing_complete\<close> after the last one.
\<close>

definition producer_step :: "'cnt system \<Rightarrow> 'cnt system" where
  "producer_step s =
     (case remaining_entries s of
        [] \<Rightarrow> s\<lparr>processing_complete := True\<rparr>
      | entry # rest \<Rightarrow>
          (if extension entry = ''.tiff'' \<and> filename entry \<noteq> ''background.tiff''
           then s\<lparr>image_queue := image_queue s @ [entry], remaining_entries := rest\<rparr>
           else s\<lparr>remaining_entries := rest\<rparr>))"

datatype actor = Producer | Consumer nat

fun act :: "('mat, 'cnt) world \<Rightarrow> 'mat \<Rightarrow> 'cnt system \<Rightarrow> actor \<Rightarrow> 'cnt system" where
  "act w blurred_bg s Producer = producer_step s"
| "act w blurred_bg s (Consumer i) = consumer_step w blurred_bg i s"

text \<open>A schedule says who takes the next step; running it is running its steps in order.\<close>

definition run_schedule ::
    "('mat, 'cnt) world \<Rightarrow> 'mat \<Rightarrow> 'cnt system \<Rightarrow> actor list \<Rightarrow> 'cnt system" where
  "run_schedule w blurred_bg s schedule = foldl (act w blurred_bg) s schedule"

text \<open>
  The system when the tasks start: \<open>n\<close> tasks at the loop test, an empty queue, the flag
  unset, the mutex free, the counters zero, and the caller's variables as \<^verbatim>\<open>main\<close> passes
  them (cleared, and \<^verbatim>\<open>max_time_image = {"", 0}\<close>).
\<close>

definition initial_system :: "nat \<Rightarrow> ('mat, 'cnt) world \<Rightarrow> 'cnt system" where
  "initial_system n w =
     \<lparr>tasks = replicate n
        \<lparr>pc = L133, popped = \<lparr>entry_path = [], extension = [], filename = []\<rparr>,
         locals = \<lparr>contours = [], metrics = ContourMetrics0, duration = indeterminate w,
                findcontour_duration = indeterminate w\<rparr>\<rparr>,
      image_queue = [],
      processing_complete = False,
      mtx = None,
      vars = \<lparr>total_time = 0, number = 0, max_process_time = 0, results = [],
              skipped_images = [], max_time_image = ([], 0), total_findcontour_time = 0\<rparr>,
      remaining_entries = entries w\<rparr>"

text \<open>The places between the construction of a \<^verbatim>\<open>lock_guard\<close> and the end of its scope.\<close>

definition in_section :: "place \<Rightarrow> bool" where
  "in_section l \<longleftrightarrow> l \<in> {L144, L145, L146, L147, L148, L150, L151, L152, L154, L155}"

text \<open>
  The pair \<^verbatim>\<open>max_process_time\<close>, \<^verbatim>\<open>max_time_image\<close> fits the recorded Successes: either
  nothing has been recorded and the maximum is still zero, or \<^verbatim>\<open>max_time_image\<close> is the path
  and the time of a recorded Success, \<^verbatim>\<open>max_process_time\<close> is that time, and no recorded
  Success took longer.
\<close>

definition max_pair_consistent :: "state_fc \<Rightarrow> bool" where
  "max_pair_consistent v \<longleftrightarrow>
     (results v = [] \<and> max_process_time v = 0)
     \<or> (\<exists>r\<in>set (results v).
           max_time_image v = (fst r, process_time_fc r)
         \<and> max_process_time v = process_time_fc r
         \<and> (\<forall>x\<in>set (results v). process_time_fc x \<le> process_time_fc r))"

text \<open>
  What the shared variables will be when the task that holds the mutex has reached the end
  of its scope: the statements it has still to execute, applied in order. Used to state the
  invariant of the transition system.
\<close>

definition finish :: "'cnt task \<Rightarrow> state_fc \<Rightarrow> state_fc" where
  "finish t v =
     (let from150 = (\<lambda>v. line151 t (line150 t v));
          from146 = (\<lambda>v. if duration (locals t) > max_process_time v
                          then from150 (line148 t (line147 t v)) else from150 v)
      in case pc t of
           L144 \<Rightarrow> from146 (line145 t (line144 t v))
         | L145 \<Rightarrow> from146 (line145 t v)
         | L146 \<Rightarrow> from146 v
         | L147 \<Rightarrow> from150 (line148 t (line147 t v))
         | L148 \<Rightarrow> from150 (line148 t v)
         | L150 \<Rightarrow> from150 v
         | L151 \<Rightarrow> line151 t v
         | L154 \<Rightarrow> line154 t v
         | _ \<Rightarrow> v)"

definition invariant :: "'cnt system \<Rightarrow> bool" where
  "invariant s \<longleftrightarrow>
     (\<forall>i<length (tasks s). in_section (pc (tasks s ! i)) \<longrightarrow> mtx s = Some i)
     \<and> (\<forall>i<length (tasks s). pc (tasks s ! i) = L143 \<longrightarrow> duration (locals (tasks s ! i)) > 0)
     \<and> (mtx s = None \<longrightarrow> max_pair_consistent (vars s))
     \<and> (\<forall>i. mtx s = Some i \<longrightarrow>
            i < length (tasks s) \<and> in_section (pc (tasks s ! i))
            \<and> max_pair_consistent (finish (tasks s ! i) (vars s)))"

text \<open>
  A schedule for two tasks over the concrete directory. The producer pushes \<^verbatim>\<open>a\<close>, \<^verbatim>\<open>b\<close>,
  \<^verbatim>\<open>c\<close> and sets the flag; task 0 pops \<^verbatim>\<open>a\<close> (a skip) and task 1 pops \<^verbatim>\<open>b\<close> (a Success);
  task 1 takes the mutex and gets as far as line 148, having written \<^verbatim>\<open>max_process_time\<close>
  but not yet \<^verbatim>\<open>max_time_image\<close>, while task 0 tries in vain to take the mutex. Then task 1
  finishes its scope, task 0 records its skip, and task 1 handles \<^verbatim>\<open>c\<close>.
\<close>

definition demo_schedule_start :: "actor list" where
  "demo_schedule_start =
     [Producer, Producer, Producer, Producer, Producer,
      Consumer 0, Consumer 0, Consumer (Suc 0), Consumer (Suc 0),
      Consumer 0, Consumer (Suc 0),
      Consumer (Suc 0), Consumer 0,
      Consumer (Suc 0), Consumer (Suc 0), Consumer (Suc 0), Consumer (Suc 0), Consumer 0]"

definition demo_schedule_rest :: "actor list" where
  "demo_schedule_rest =
     [Consumer (Suc 0), Consumer (Suc 0), Consumer (Suc 0), Consumer (Suc 0),
      Consumer 0, Consumer 0, Consumer 0,
      Consumer (Suc 0), Consumer (Suc 0), Consumer (Suc 0), Consumer (Suc 0),
      Consumer (Suc 0), Consumer (Suc 0), Consumer (Suc 0), Consumer (Suc 0),
      Consumer (Suc 0), Consumer (Suc 0), Consumer (Suc 0), Consumer (Suc 0)]"












section \<open>The consumer of max\_time.cpp, statement by statement\<close>
















section \<open>Properties of the contour metrics\<close>

lemma max_element_cases:
  "max_element cmp a xs = a \<or> max_element cmp a xs \<in> set xs"
proof (induction xs arbitrary: a)
  case Nil
  show ?case by simp
next
  case (Cons x xs)
  from Cons [of "if cmp a x then x else a"] show ?case
    by (auto split: if_splits)
qed

lemma max_element_upper:
  fixes f :: "'a \<Rightarrow> real"
  shows "f a \<le> f (max_element (\<lambda>c1 c2. f c1 < f c2) a xs)
     \<and> (\<forall>x\<in>set xs. f x \<le> f (max_element (\<lambda>c1 c2. f c1 < f c2) a xs))"
proof (induction xs arbitrary: a)
  case Nil
  show ?case by simp
next
  case (Cons x xs)
  let ?b = "if f a < f x then x else a"
  let ?m = "max_element (\<lambda>c1 c2. f c1 < f c2) ?b xs"
  have step: "f ?b \<le> f ?m" and rest: "\<forall>y\<in>set xs. f y \<le> f ?m"
    using Cons.IH [of ?b] by blast+
  have "f a \<le> f ?b" and "f x \<le> f ?b" by auto
  with step have "f a \<le> f ?m" and "f x \<le> f ?m" by linarith+
  moreover have "max_element (\<lambda>c1 c2. f c1 < f c2) a (x # xs) = ?m" by simp
  ultimately show ?case using rest by (simp split del: if_split)
qed

lemma max_element_singleton_same:
  fixes f :: "'a \<Rightarrow> real"
  assumes "xs \<noteq> []"
  shows "\<exists>m\<in>set xs. max_element (\<lambda>c1 c2. f c1 < f c2) (hd xs) (tl xs) = m
           \<and> (\<forall>x\<in>set xs. f x \<le> f m)"
proof -
  obtain a ys where xs: "xs = a # ys" using assms by (cases xs) auto
  let ?m = "max_element (\<lambda>c1 c2. f c1 < f c2) a ys"
  have "?m \<in> set xs" using max_element_cases [of "\<lambda>c1 c2. f c1 < f c2" a ys] xs by auto
  moreover have "\<forall>x\<in>set xs. f x \<le> f ?m" using max_element_upper [of f a ys] xs by auto
  ultimately show ?thesis using xs by auto
qed

lemma calculate_contour_metrics_of_largest:
  "calculate_contour_metrics cv (c # cs) =
     calculate_contour_metrics cv [max_element (\<lambda>c1 c2. contourArea cv c1 < contourArea cv c2) c cs]"
  by (simp add: calculate_contour_metrics_def)

lemma calculate_contour_metrics_single:
  "calculate_contour_metrics cv [cnt] =
     (if degenerate cv cnt then ContourMetrics0
      else \<lparr>area_original = contourArea cv cnt,
            area_hull = contourArea cv (convexHull cv cnt),
            area_ratio = contourArea cv (convexHull cv cnt) / contourArea cv cnt,
            circularity_original =
              4 * pi * contourArea cv cnt / (arcLength cv cnt * arcLength cv cnt),
            circularity_hull =
              4 * pi * contourArea cv (convexHull cv cnt)
                / (arcLength cv (convexHull cv cnt) * arcLength cv (convexHull cv cnt)),
            circularity_ratio =
              (4 * pi * contourArea cv (convexHull cv cnt)
                 / (arcLength cv (convexHull cv cnt) * arcLength cv (convexHull cv cnt)))
              / (4 * pi * contourArea cv cnt / (arcLength cv cnt * arcLength cv cnt))\<rparr>)"
  by (simp add: calculate_contour_metrics_def degenerate_def Let_def)

section \<open>Properties of the frame processors\<close>

lemma process_single_image_fc_outside:
  assumes "white_pixel_count_of cv image_path blurred_bg < 250
           \<or> white_pixel_count_of cv image_path blurred_bg > 650"
  shows "process_single_image_fc cv now image_path blurred_bg out = out\<lparr>duration := 0\<rparr>"
  using assms
  by (simp add: process_single_image_fc_def white_pixel_count_of_def binary_of_def Let_def)

lemma process_single_image_fc_inside:
  assumes "250 \<le> white_pixel_count_of cv image_path blurred_bg"
    and "white_pixel_count_of cv image_path blurred_bg \<le> 650"
  shows "process_single_image_fc cv now image_path blurred_bg out =
           out\<lparr>contours := findContours cv (dilate2_of cv image_path blurred_bg),
               findcontour_duration := now 2 - now 1,
               duration := now 3 - now 0,
               metrics :=
                 (if findContours cv (dilate2_of cv image_path blurred_bg) \<noteq> []
                  then calculate_contour_metrics cv
                         (findContours cv (dilate2_of cv image_path blurred_bg))
                  else metrics out)\<rparr>"
  using assms
  by (simp add: process_single_image_fc_def white_pixel_count_of_def dilate2_of_def
      binary_of_def Let_def)

lemma consume_fc_outside:
  assumes "white_pixel_count_of (lib w) (entry_path path) blurred_bg < 250
           \<or> white_pixel_count_of (lib w) (entry_path path) blurred_bg > 650"
  shows "consume_fc w blurred_bg path st = record_skip_fc (entry_path path) st"
  by (simp add: consume_fc_def process_single_image_fc_outside [OF assms])

lemma consume_fc_inside:
  assumes "250 \<le> white_pixel_count_of (lib w) (entry_path path) blurred_bg"
    and "white_pixel_count_of (lib w) (entry_path path) blurred_bg \<le> 650"
  shows "consume_fc w blurred_bg path st =
           (if clock_of w (entry_path path) 3 - clock_of w (entry_path path) 0 > 0
            then record_success_fc (entry_path path)
                   (if findContours (lib w) (dilate2_of (lib w) (entry_path path) blurred_bg) \<noteq> []
                    then calculate_contour_metrics (lib w)
                           (findContours (lib w) (dilate2_of (lib w) (entry_path path) blurred_bg))
                    else ContourMetrics0)
                   (clock_of w (entry_path path) 3 - clock_of w (entry_path path) 0)
                   (clock_of w (entry_path path) 2 - clock_of w (entry_path path) 1) st
            else record_skip_fc (entry_path path) st)"
  by (simp add: consume_fc_def process_single_image_fc_inside [OF assms])

lemma process_single_image_ts_cases:
  "process_single_image_ts cv now image_path blurred_bg out =
     (if now 1 - now 0 > 200 then (False, out\<lparr>duration := now 1 - now 0\<rparr>)
      else if now 2 - now 0 > 200
      then (False, out\<lparr>contours := findContours cv (dilate2_of cv image_path blurred_bg),
                       duration := now 2 - now 0\<rparr>)
      else (True, out\<lparr>contours := findContours cv (dilate2_of cv image_path blurred_bg),
                      duration := now 2 - now 0,
                      metrics :=
                        (if findContours cv (dilate2_of cv image_path blurred_bg) \<noteq> []
                         then calculate_contour_metrics cv
                                (findContours cv (dilate2_of cv image_path blurred_bg))
                         else metrics out)\<rparr>))"
  by (simp add: process_single_image_ts_def dilate2_of_def binary_of_def Let_def)

lemma process_single_image_mt_eq:
  "process_single_image_mt cv now image_path blurred_bg out =
     out\<lparr>contours := findContours cv (dilate2_of cv image_path blurred_bg),
         duration := now 1 - now 0,
         metrics :=
           (if findContours cv (dilate2_of cv image_path blurred_bg) \<noteq> []
            then calculate_contour_metrics cv
                   (findContours cv (dilate2_of cv image_path blurred_bg))
            else metrics out)\<rparr>"
  by (simp add: process_single_image_mt_def dilate2_of_def binary_of_def Let_def)

lemma fake_cv_simps:
  "imread (fake_cv files) = files"
  "Mat_empty (fake_cv files) m = (m = NoImage)"
  "GaussianBlur (fake_cv files) m = m"
  "GaussianBlur_raises (fake_cv files) m = (m = NoImage)"
  "subtract (fake_cv files) bg m = m"
  "threshold (fake_cv files) m = m"
  "countNonZero (fake_cv files) (Image n cs) = n"
  "dilate (fake_cv files) m k = m"
  "erode (fake_cv files) m k = m"
  "findContours (fake_cv files) (Image n cs) = cs"
  "contourArea (fake_cv files) (a, p, ha, hp) = a"
  "arcLength (fake_cv files) (a, p, ha, hp) = p"
  "convexHull (fake_cv files) (a, p, ha, hp) = (ha, hp, ha, hp)"
  by (simp_all add: fake_cv_def)

lemma fake_pipeline:
  "binary_of (fake_cv files) p bg = files p"
  "dilate2_of (fake_cv files) p bg = files p"
  "white_pixel_count_of (fake_cv files) p bg = countNonZero (fake_cv files) (files p)"
  by (simp_all add: binary_of_def dilate2_of_def white_pixel_count_of_def fake_cv_simps)

lemma demo_files_simps:
  "demo_files ''dir/background.tiff'' = Image 0 []"
  "demo_files ''dir/a.tiff'' = Image 100 [shape_a]"
  "demo_files ''dir/b.tiff'' = Image 300 [shape_a, shape_b]"
  "demo_files ''dir/c.tiff'' = Image 400 []"
  "demo_files ''dir/missing.tiff'' = NoImage"
  by (simp_all add: demo_files_def)

lemma demo_clock_simps:
  "demo_clock ''dir/a.tiff'' = ticks [0, 10, 30, 40]"
  "demo_clock ''dir/b.tiff'' = ticks [1000, 1010, 1030, 1050]"
  "demo_clock ''dir/c.tiff'' = ticks [2000, 2040, 2100, 2120]"
  "demo_clock ''dir/missing.tiff'' = ticks [0, 10, 30, 40]"
  by (simp_all add: demo_clock_def)

lemma ticks_simps:
  "ticks (t0 # ts) 0 = t0"
  "ticks (t0 # t1 # ts) 1 = t1"
  "ticks (t0 # t1 # ts) (Suc 0) = t1"
  "ticks (t0 # t1 # t2 # ts) 2 = t2"
  "ticks (t0 # t1 # t2 # t3 # ts) 3 = t3"
  by (simp_all add: ticks_def)

lemma demo_world_simps:
  "lib demo_world = fake_cv demo_files"
  "clock_of demo_world = demo_clock"
  "indeterminate demo_world = 7"
  "entries demo_world = [tiff ''dir'' ''a'', tiff ''dir'' ''background'', tiff ''dir'' ''b'',
                         tiff ''dir'' ''c'']"
  by (simp_all add: demo_world_def)

lemma stall_world_simps:
  "lib stall_world = fake_cv demo_files"
  "entries stall_world = [tiff ''dir'' ''a'', tiff ''dir'' ''background'', tiff ''dir'' ''b'',
                          tiff ''dir'' ''c'']"
  "clock_of stall_world p = ticks [5, 5, 5, 5]"
  "indeterminate stall_world = 7"
  by (simp_all add: stall_world_def demo_world_def)

lemma unreadable_world_simps:
  "lib unreadable_world = fake_cv demo_files"
  "entries unreadable_world = [tiff ''dir'' ''a'', tiff ''dir'' ''background'',
                               tiff ''dir'' ''missing'', tiff ''dir'' ''b'', tiff ''dir'' ''c'']"
  "clock_of unreadable_world = demo_clock"
  "indeterminate unreadable_world = 7"
  by (simp_all add: unreadable_world_def demo_world_def)

lemma tiff_simps:
  "entry_path (tiff dir name) = dir @ ''/'' @ name @ ''.tiff''"
  "extension (tiff dir name) = ''.tiff''"
  "filename (tiff dir name) = name @ ''.tiff''"
  by (simp_all add: tiff_def)

text \<open>
  Claim C10. For a non-empty list of contours, \<^verbatim>\<open>calculate_contour_metrics\<close> picks one
  contour of the list whose area no other contour exceeds, and returns what it would return
  for that contour alone. If the area or the perimeter of that contour or of its convex hull
  is at most \<open>1e-6\<close>, every field of the result is zero; otherwise \<open>area_ratio\<close> is the hull's
  area over the contour's area and \<open>circularity_ratio\<close> is the hull's circularity over the
  contour's, each circularity being \<open>4 pi area / perimeter^2\<close>. The harness does not look at
  the metrics when it classifies: a frame inside the pixel window whose contours these are and
  whose measured duration is positive is recorded as a Success with these metrics, degenerate
  or not.
\<close>

theorem calculate_contour_metrics_largest_contour:
  fixes cv :: "('mat, 'cnt) opencv"
  assumes nonempty: "cs \<noteq> []"
  shows "(\<exists>cnt\<in>set cs.
           (\<forall>c\<in>set cs. contourArea cv c \<le> contourArea cv cnt)
         \<and> calculate_contour_metrics cv cs = calculate_contour_metrics cv [cnt]
         \<and> (degenerate cv cnt \<longrightarrow> calculate_contour_metrics cv cs = ContourMetrics0)
         \<and> (\<not> degenerate cv cnt \<longrightarrow>
               area_original (calculate_contour_metrics cv cs) = contourArea cv cnt
             \<and> area_hull (calculate_contour_metrics cv cs) = contourArea cv (convexHull cv cnt)
             \<and> area_ratio (calculate_contour_metrics cv cs)
                 = contourArea cv (convexHull cv cnt) / contourArea cv cnt
             \<and> circularity_original (calculate_contour_metrics cv cs)
                 = 4 * pi * contourArea cv cnt / (arcLength cv cnt * arcLength cv cnt)
             \<and> circularity_hull (calculate_contour_metrics cv cs)
                 = 4 * pi * contourArea cv (convexHull cv cnt)
                     / (arcLength cv (convexHull cv cnt) * arcLength cv (convexHull cv cnt))
             \<and> circularity_ratio (calculate_contour_metrics cv cs)
                 = circularity_hull (calculate_contour_metrics cv cs)
                     / circularity_original (calculate_contour_metrics cv cs)))
       \<and> (\<forall>w blurred_bg path st.
             lib w = cv
             \<and> 250 \<le> white_pixel_count_of cv (entry_path path) blurred_bg
             \<and> white_pixel_count_of cv (entry_path path) blurred_bg \<le> 650
             \<and> findContours cv (dilate2_of cv (entry_path path) blurred_bg) = cs
             \<and> 0 < clock_of w (entry_path path) 3 - clock_of w (entry_path path) 0
             \<longrightarrow> consume_fc w blurred_bg path st =
                   record_success_fc (entry_path path) (calculate_contour_metrics cv cs)
                     (clock_of w (entry_path path) 3 - clock_of w (entry_path path) 0)
                     (clock_of w (entry_path path) 2 - clock_of w (entry_path path) 1) st)"
proof -
  obtain a ys where cs: "cs = a # ys" using nonempty by (cases cs) auto
  define cnt where "cnt = max_element (\<lambda>c1 c2. contourArea cv c1 < contourArea cv c2) a ys"
  have mem: "cnt \<in> set cs"
    using max_element_cases [of "\<lambda>c1 c2. contourArea cv c1 < contourArea cv c2" a ys] cs
    by (auto simp: cnt_def)
  have top: "\<forall>c\<in>set cs. contourArea cv c \<le> contourArea cv cnt"
    using max_element_upper [of "contourArea cv" a ys] cs by (auto simp: cnt_def)
  have same: "calculate_contour_metrics cv cs = calculate_contour_metrics cv [cnt]"
    unfolding cs cnt_def by (rule calculate_contour_metrics_of_largest)
  have zero: "degenerate cv cnt \<longrightarrow> calculate_contour_metrics cv cs = ContourMetrics0"
    by (simp add: same calculate_contour_metrics_single)
  have ratios: "\<not> degenerate cv cnt \<longrightarrow>
               area_original (calculate_contour_metrics cv cs) = contourArea cv cnt
             \<and> area_hull (calculate_contour_metrics cv cs) = contourArea cv (convexHull cv cnt)
             \<and> area_ratio (calculate_contour_metrics cv cs)
                 = contourArea cv (convexHull cv cnt) / contourArea cv cnt
             \<and> circularity_original (calculate_contour_metrics cv cs)
                 = 4 * pi * contourArea cv cnt / (arcLength cv cnt * arcLength cv cnt)
             \<and> circularity_hull (calculate_contour_metrics cv cs)
                 = 4 * pi * contourArea cv (convexHull cv cnt)
                     / (arcLength cv (convexHull cv cnt) * arcLength cv (convexHull cv cnt))
             \<and> circularity_ratio (calculate_contour_metrics cv cs)
                 = circularity_hull (calculate_contour_metrics cv cs)
                     / circularity_original (calculate_contour_metrics cv cs)"
    by (simp add: same calculate_contour_metrics_single)
  have harness: "consume_fc w blurred_bg path st =
                   record_success_fc (entry_path path) (calculate_contour_metrics cv cs)
                     (clock_of w (entry_path path) 3 - clock_of w (entry_path path) 0)
                     (clock_of w (entry_path path) 2 - clock_of w (entry_path path) 1) st"
    if "lib w = cv"
      and "250 \<le> white_pixel_count_of cv (entry_path path) blurred_bg"
      and "white_pixel_count_of cv (entry_path path) blurred_bg \<le> 650"
      and "findContours cv (dilate2_of cv (entry_path path) blurred_bg) = cs"
      and "0 < clock_of w (entry_path path) 3 - clock_of w (entry_path path) 0"
    for w :: "('mat, 'cnt) world" and blurred_bg path st
    using that nonempty consume_fc_inside [of w path blurred_bg st] by simp
  from mem top same zero ratios have first: "\<exists>cnt\<in>set cs.
           (\<forall>c\<in>set cs. contourArea cv c \<le> contourArea cv cnt)
         \<and> calculate_contour_metrics cv cs = calculate_contour_metrics cv [cnt]
         \<and> (degenerate cv cnt \<longrightarrow> calculate_contour_metrics cv cs = ContourMetrics0)
         \<and> (\<not> degenerate cv cnt \<longrightarrow>
               area_original (calculate_contour_metrics cv cs) = contourArea cv cnt
             \<and> area_hull (calculate_contour_metrics cv cs) = contourArea cv (convexHull cv cnt)
             \<and> area_ratio (calculate_contour_metrics cv cs)
                 = contourArea cv (convexHull cv cnt) / contourArea cv cnt
             \<and> circularity_original (calculate_contour_metrics cv cs)
                 = 4 * pi * contourArea cv cnt / (arcLength cv cnt * arcLength cv cnt)
             \<and> circularity_hull (calculate_contour_metrics cv cs)
                 = 4 * pi * contourArea cv (convexHull cv cnt)
                     / (arcLength cv (convexHull cv cnt) * arcLength cv (convexHull cv cnt))
             \<and> circularity_ratio (calculate_contour_metrics cv cs)
                 = circularity_hull (calculate_contour_metrics cv cs)
                     / circularity_original (calculate_contour_metrics cv cs))"
    by blast
  from first harness show ?thesis by blast
qed

lemma shapes:
  "set [shape_a, shape_b] = {shape_a, shape_b}"
  "contourArea (fake_cv f) shape_a = 4" "contourArea (fake_cv f) shape_b = 9"
  "\<not> degenerate (fake_cv f) shape_b"
  by (simp_all add: shape_a_def shape_b_def fake_cv_simps degenerate_def tiny_def)

theorem calculate_contour_metrics_largest_contour_witness:
  "[shape_a, shape_b] \<noteq> []
   \<and> area_ratio (calculate_contour_metrics (fake_cv demo_files) [shape_a, shape_b]) = 16 / 9
   \<and> circularity_ratio (calculate_contour_metrics (fake_cv demo_files) [shape_a, shape_b]) = 1
   \<and> results (consume_fc demo_world (Image 0 []) (tiff ''dir'' ''b'')
         \<lparr>total_time = 0, number = 0, max_process_time = 0, results = [], skipped_images = [],
          max_time_image = ([], 0), total_findcontour_time = 0\<rparr>)
       = [(''dir/b.tiff'', 1, 16 / 9, 50, 20)]"
proof -
  let ?cv = "fake_cv demo_files"
  let ?cs = "[shape_a, shape_b]"
  have ne: "?cs \<noteq> []" by simp
  note inst = calculate_contour_metrics_largest_contour [OF ne, of ?cv]
  from inst [THEN conjunct1] obtain cnt where cnt: "cnt \<in> set ?cs"
    and top: "\<forall>c\<in>set ?cs. contourArea ?cv c \<le> contourArea ?cv cnt"
    and ratios: "\<not> degenerate ?cv cnt \<longrightarrow>
        area_ratio (calculate_contour_metrics ?cv ?cs)
          = contourArea ?cv (convexHull ?cv cnt) / contourArea ?cv cnt
      \<and> circularity_original (calculate_contour_metrics ?cv ?cs)
                 = 4 * pi * contourArea ?cv cnt / (arcLength ?cv cnt * arcLength ?cv cnt)
      \<and> circularity_hull (calculate_contour_metrics ?cv ?cs)
                 = 4 * pi * contourArea ?cv (convexHull ?cv cnt)
                     / (arcLength ?cv (convexHull ?cv cnt) * arcLength ?cv (convexHull ?cv cnt))
      \<and> circularity_ratio (calculate_contour_metrics ?cv ?cs)
          = circularity_hull (calculate_contour_metrics ?cv ?cs)
              / circularity_original (calculate_contour_metrics ?cv ?cs)"
    by blast
  have "cnt = shape_b"
  proof (rule ccontr)
    assume "cnt \<noteq> shape_b"
    with cnt have "cnt = shape_a" by simp
    with top show False by (simp add: shapes)
  qed
  with ratios have r1: "area_ratio (calculate_contour_metrics ?cv ?cs) = 16 / 9"
    and r2: "circularity_ratio (calculate_contour_metrics ?cv ?cs) = 1"
    by (simp_all add: shapes) (simp_all add: shape_b_def fake_cv_simps)
  from inst [THEN conjunct2, rule_format, of demo_world "tiff ''dir'' ''b''" "Image 0 []"]
  have "consume_fc demo_world (Image 0 []) (tiff ''dir'' ''b'')
         \<lparr>total_time = 0, number = 0, max_process_time = 0, results = [], skipped_images = [],
          max_time_image = ([], 0), total_findcontour_time = 0\<rparr>
       = record_success_fc ''dir/b.tiff'' (calculate_contour_metrics ?cv ?cs) 50 20
         \<lparr>total_time = 0, number = 0, max_process_time = 0, results = [], skipped_images = [],
          max_time_image = ([], 0), total_findcontour_time = 0\<rparr>"
    by (simp add: demo_world_simps tiff_simps fake_pipeline fake_cv_simps demo_files_simps
        demo_clock_simps ticks_simps)
  with r1 r2 ne show ?thesis by (simp add: record_success_fc_def Let_def)
qed

section \<open>Classification of single frames\<close>

lemma record_success_fc_fields:
  "results (record_success_fc p m t ft st) = results st @ [(p, circularity_ratio m, area_ratio m, t, ft)]"
  "skipped_images (record_success_fc p m t ft st) = skipped_images st"
  "number (record_success_fc p m t ft st) = number st + 1"
  "total_time (record_success_fc p m t ft st) = total_time st + t"
  "total_findcontour_time (record_success_fc p m t ft st) = total_findcontour_time st + ft"
  by (simp_all add: record_success_fc_def Let_def)

lemma record_skip_fc_fields:
  "results (record_skip_fc p st) = results st"
  "skipped_images (record_skip_fc p st) = skipped_images st @ [p]"
  "number (record_skip_fc p st) = number st"
  "max_process_time (record_skip_fc p st) = max_process_time st"
  "max_time_image (record_skip_fc p st) = max_time_image st"
  by (simp_all add: record_skip_fc_def)

lemma record_success_ts_fields:
  "results (record_success_ts p m t st) = results st @ [(p, circularity_ratio m, area_ratio m, t)]"
  "skipped_images (record_success_ts p m t st) = skipped_images st"
  "number (record_success_ts p m t st) = number st + 1"
  "total_time (record_success_ts p m t st) = total_time st + t"
  by (simp_all add: record_success_ts_def Let_def)

lemma record_skip_ts_fields:
  "results (record_skip_ts p t st) = results st"
  "skipped_images (record_skip_ts p t st) = skipped_images st @ [(p, t)]"
  "number (record_skip_ts p t st) = number st"
  "max_process_time (record_skip_ts p t st) = max_process_time st"
  "max_time_image (record_skip_ts p t st) = max_time_image st"
  by (simp_all add: record_skip_ts_def)

lemma ContourMetrics0_fields:
  "area_original ContourMetrics0 = 0" "area_hull ContourMetrics0 = 0"
  "area_ratio ContourMetrics0 = 0" "circularity_original ContourMetrics0 = 0"
  "circularity_hull ContourMetrics0 = 0" "circularity_ratio ContourMetrics0 = 0"
  by (simp_all add: ContourMetrics0_def)

lemma consume_ts_cases:
  "consume_ts w blurred_bg path st =
     (if clock_of w (entry_path path) 1 - clock_of w (entry_path path) 0 > 200
      then record_skip_ts (entry_path path)
             (clock_of w (entry_path path) 1 - clock_of w (entry_path path) 0) st
      else if clock_of w (entry_path path) 2 - clock_of w (entry_path path) 0 > 200
      then record_skip_ts (entry_path path)
             (clock_of w (entry_path path) 2 - clock_of w (entry_path path) 0) st
      else record_success_ts (entry_path path)
             (if findContours (lib w) (dilate2_of (lib w) (entry_path path) blurred_bg) \<noteq> []
              then calculate_contour_metrics (lib w)
                     (findContours (lib w) (dilate2_of (lib w) (entry_path path) blurred_bg))
              else ContourMetrics0)
             (clock_of w (entry_path path) 2 - clock_of w (entry_path path) 0) st)"
  by (simp add: consume_ts_def process_single_image_ts_cases)

text \<open>
  Claim C6. A frame whose count of non-zero pixels after thresholding is below 250 or above
  650 makes \<^verbatim>\<open>process_single_image\<close> of findcontour\_time\_10000.cpp return with
  \<^verbatim>\<open>duration = 0\<close> and nothing else written: the caller's \<^verbatim>\<open>contours\<close> and \<^verbatim>\<open>metrics\<close>
  are as they were, so neither \<^verbatim>\<open>findContours\<close> nor \<^verbatim>\<open>calculate_contour_metrics\<close> had a
  part in the result. The consumer then appends the path to \<^verbatim>\<open>skipped_images\<close> and changes
  nothing else; in particular \<^verbatim>\<open>results\<close> and \<^verbatim>\<open>number\<close> are unchanged. (A skip carries no
  reason: it is signalled by the zero duration and recorded by path.)
\<close>

theorem out_of_window_frame_is_skipped:
  fixes w :: "('mat, 'cnt) world"
  assumes outside:
    "white_pixel_count_of (lib w) (entry_path path) blurred_bg < 250
     \<or> white_pixel_count_of (lib w) (entry_path path) blurred_bg > 650"
  shows "process_single_image_fc (lib w) now (entry_path path) blurred_bg out
           = out\<lparr>duration := 0\<rparr>
       \<and> consume_fc w blurred_bg path st
           = st\<lparr>skipped_images := skipped_images st @ [entry_path path]\<rparr>
       \<and> results (consume_fc w blurred_bg path st) = results st
       \<and> number (consume_fc w blurred_bg path st) = number st"
proof -
  have "process_single_image_fc (lib w) now (entry_path path) blurred_bg out
          = out\<lparr>duration := 0\<rparr>"
    using outside by (rule process_single_image_fc_outside)
  moreover have "consume_fc w blurred_bg path st
                   = st\<lparr>skipped_images := skipped_images st @ [entry_path path]\<rparr>"
    using consume_fc_outside [OF outside] by (simp add: record_skip_fc_def)
  ultimately show ?thesis by simp
qed

theorem out_of_window_frame_is_skipped_witness:
  "(white_pixel_count_of (lib demo_world) (entry_path (tiff ''dir'' ''a'')) (Image 0 []) < 250
     \<or> white_pixel_count_of (lib demo_world) (entry_path (tiff ''dir'' ''a'')) (Image 0 []) > 650)
   \<and> process_single_image_fc (lib demo_world) (demo_clock ''dir/a.tiff'')
         (entry_path (tiff ''dir'' ''a'')) (Image 0 [])
         \<lparr>contours = [], metrics = ContourMetrics0, duration = 7, findcontour_duration = 7\<rparr>
       = \<lparr>contours = [], metrics = ContourMetrics0, duration = 0, findcontour_duration = 7\<rparr>
   \<and> consume_fc demo_world (Image 0 []) (tiff ''dir'' ''a'')
         \<lparr>total_time = 0, number = 0, max_process_time = 0, results = [], skipped_images = [],
          max_time_image = ([], 0), total_findcontour_time = 0\<rparr>
       = \<lparr>total_time = 0, number = 0, max_process_time = 0, results = [],
          skipped_images = [''dir/a.tiff''], max_time_image = ([], 0),
          total_findcontour_time = 0\<rparr>"
proof -
  have outside:
    "white_pixel_count_of (lib demo_world) (entry_path (tiff ''dir'' ''a'')) (Image 0 []) < 250
     \<or> white_pixel_count_of (lib demo_world) (entry_path (tiff ''dir'' ''a'')) (Image 0 []) > 650"
    by (simp add: demo_world_simps tiff_simps fake_pipeline demo_files_simps fake_cv_simps)
  from out_of_window_frame_is_skipped [OF outside] outside show ?thesis
    by (simp add: tiff_simps)
qed

text \<open>
  Claim C7. In time\_skip.cpp the elapsed time is measured twice, before and after
  \<^verbatim>\<open>findContours\<close>. If the first measurement exceeds 200 microseconds the function returns
  \<^verbatim>\<open>false\<close> with that measurement as \<^verbatim>\<open>duration\<close> and with \<^verbatim>\<open>contours\<close> and \<^verbatim>\<open>metrics\<close>
  untouched; if only the second exceeds 200 it returns \<^verbatim>\<open>false\<close> with the second
  measurement and with \<^verbatim>\<open>metrics\<close> untouched; otherwise it returns \<^verbatim>\<open>true\<close>. The consumer
  appends the path of a \<^verbatim>\<open>false\<close> frame, paired with that measurement, to
  \<^verbatim>\<open>skipped_images\<close> and changes nothing else, and records a \<^verbatim>\<open>true\<close> frame among the
  \<^verbatim>\<open>results\<close>.
\<close>

theorem time_budget_classification:
  fixes w :: "('mat, 'cnt) world" and path :: dir_entry
  defines "p \<equiv> entry_path path"
  defines "now \<equiv> clock_of w (entry_path path)"
  shows "(now 1 - now 0 > 200 \<longrightarrow>
            process_single_image_ts (lib w) now p blurred_bg out
              = (False, out\<lparr>duration := now 1 - now 0\<rparr>)
          \<and> consume_ts w blurred_bg path st
              = st\<lparr>skipped_images := skipped_images st @ [(p, now 1 - now 0)]\<rparr>)
       \<and> (now 1 - now 0 \<le> 200 \<and> now 2 - now 0 > 200 \<longrightarrow>
            process_single_image_ts (lib w) now p blurred_bg out
              = (False, out\<lparr>contours := findContours (lib w) (dilate2_of (lib w) p blurred_bg),
                             duration := now 2 - now 0\<rparr>)
          \<and> consume_ts w blurred_bg path st
              = st\<lparr>skipped_images := skipped_images st @ [(p, now 2 - now 0)]\<rparr>)
       \<and> (now 1 - now 0 \<le> 200 \<and> now 2 - now 0 \<le> 200 \<longrightarrow>
            fst (process_single_image_ts (lib w) now p blurred_bg out)
          \<and> duration (snd (process_single_image_ts (lib w) now p blurred_bg out)) = now 2 - now 0
          \<and> consume_ts w blurred_bg path st
              = record_success_ts p
                  (if findContours (lib w) (dilate2_of (lib w) p blurred_bg) \<noteq> []
                   then calculate_contour_metrics (lib w)
                          (findContours (lib w) (dilate2_of (lib w) p blurred_bg))
                   else ContourMetrics0)
                  (now 2 - now 0) st
          \<and> skipped_images (consume_ts w blurred_bg path st) = skipped_images st
          \<and> number (consume_ts w blurred_bg path st) = number st + 1
          \<and> length (results (consume_ts w blurred_bg path st)) = length (results st) + 1)"
  unfolding p_def now_def
  by (simp add: process_single_image_ts_cases consume_ts_cases record_skip_ts_def
      record_success_ts_fields)

theorem time_budget_classification_witness:
  "clock_of (demo_world\<lparr>clock_of := \<lambda>p. ticks [0, 250, 300]\<rparr>) (entry_path (tiff ''dir'' ''b'')) 1
     - clock_of (demo_world\<lparr>clock_of := \<lambda>p. ticks [0, 250, 300]\<rparr>) (entry_path (tiff ''dir'' ''b'')) 0
     > 200
   \<and> consume_ts (demo_world\<lparr>clock_of := \<lambda>p. ticks [0, 250, 300]\<rparr>) (Image 0 [])
         (tiff ''dir'' ''b'')
         \<lparr>total_time = 0, number = 0, max_process_time = 0, results = [], skipped_images = [],
          max_time_image = ([], 0)\<rparr>
       = \<lparr>total_time = 0, number = 0, max_process_time = 0, results = [],
          skipped_images = [(''dir/b.tiff'', 250)], max_time_image = ([], 0)\<rparr>
   \<and> clock_of (demo_world\<lparr>clock_of := \<lambda>p. ticks [0, 100, 300]\<rparr>) (entry_path (tiff ''dir'' ''b'')) 1
     - clock_of (demo_world\<lparr>clock_of := \<lambda>p. ticks [0, 100, 300]\<rparr>) (entry_path (tiff ''dir'' ''b'')) 0
     \<le> 200
   \<and> clock_of (demo_world\<lparr>clock_of := \<lambda>p. ticks [0, 100, 300]\<rparr>) (entry_path (tiff ''dir'' ''b'')) 2
     - clock_of (demo_world\<lparr>clock_of := \<lambda>p. ticks [0, 100, 300]\<rparr>) (entry_path (tiff ''dir'' ''b'')) 0
     > 200
   \<and> consume_ts (demo_world\<lparr>clock_of := \<lambda>p. ticks [0, 100, 300]\<rparr>) (Image 0 [])
         (tiff ''dir'' ''b'')
         \<lparr>total_time = 0, number = 0, max_process_time = 0, results = [], skipped_images = [],
          max_time_image = ([], 0)\<rparr>
       = \<lparr>total_time = 0, number = 0, max_process_time = 0, results = [],
          skipped_images = [(''dir/b.tiff'', 300)], max_time_image = ([], 0)\<rparr>
   \<and> clock_of (demo_world\<lparr>clock_of := \<lambda>p. ticks [0, 100, 150]\<rparr>) (entry_path (tiff ''dir'' ''b'')) 1
     - clock_of (demo_world\<lparr>clock_of := \<lambda>p. ticks [0, 100, 150]\<rparr>) (entry_path (tiff ''dir'' ''b'')) 0
     \<le> 200
   \<and> clock_of (demo_world\<lparr>clock_of := \<lambda>p. ticks [0, 100, 150]\<rparr>) (entry_path (tiff ''dir'' ''b'')) 2
     - clock_of (demo_world\<lparr>clock_of := \<lambda>p. ticks [0, 100, 150]\<rparr>) (entry_path (tiff ''dir'' ''b'')) 0
     \<le> 200
   \<and> number (consume_ts (demo_world\<lparr>clock_of := \<lambda>p. ticks [0, 100, 150]\<rparr>) (Image 0 [])
         (tiff ''dir'' ''b'')
         \<lparr>total_time = 0, number = 0, max_process_time = 0, results = [], skipped_images = [],
          max_time_image = ([], 0)\<rparr>) = 1
   \<and> skipped_images (consume_ts (demo_world\<lparr>clock_of := \<lambda>p. ticks [0, 100, 150]\<rparr>)
         (Image 0 []) (tiff ''dir'' ''b'')
         \<lparr>total_time = 0, number = 0, max_process_time = 0, results = [], skipped_images = [],
          max_time_image = ([], 0)\<rparr>) = []"
proof -
  let ?st = "\<lparr>total_time = 0, number = 0, max_process_time = 0, results = [],
              skipped_images = [], max_time_image = ([], 0)\<rparr> :: state_ts"
  let ?P = "tiff ''dir'' ''b''"
  let ?W1 = "demo_world\<lparr>clock_of := \<lambda>p. ticks [0, 250, 300]\<rparr>"
  let ?W2 = "demo_world\<lparr>clock_of := \<lambda>p. ticks [0, 100, 300]\<rparr>"
  let ?W3 = "demo_world\<lparr>clock_of := \<lambda>p. ticks [0, 100, 150]\<rparr>"
  have t1: "clock_of ?W1 (entry_path ?P) 1 - clock_of ?W1 (entry_path ?P) 0 > 200"
    by (simp add: ticks_simps)
  have t2: "clock_of ?W2 (entry_path ?P) 1 - clock_of ?W2 (entry_path ?P) 0 \<le> 200
            \<and> clock_of ?W2 (entry_path ?P) 2 - clock_of ?W2 (entry_path ?P) 0 > 200"
    by (simp add: ticks_simps)
  have t3: "clock_of ?W3 (entry_path ?P) 1 - clock_of ?W3 (entry_path ?P) 0 \<le> 200
            \<and> clock_of ?W3 (entry_path ?P) 2 - clock_of ?W3 (entry_path ?P) 0 \<le> 200"
    by (simp add: ticks_simps)
  have c1: "consume_ts ?W1 (Image 0 []) ?P ?st
              = ?st\<lparr>skipped_images := skipped_images ?st @ [(entry_path ?P, 250)]\<rparr>"
    using time_budget_classification
      [where w = ?W1 and path = ?P and blurred_bg = "Image 0 []" and st = ?st,
       THEN conjunct1, rule_format, OF t1, THEN conjunct2]
    by (simp add: ticks_simps)
  have c2: "consume_ts ?W2 (Image 0 []) ?P ?st
              = ?st\<lparr>skipped_images := skipped_images ?st @ [(entry_path ?P, 300)]\<rparr>"
    using time_budget_classification
      [where w = ?W2 and path = ?P and blurred_bg = "Image 0 []" and st = ?st,
       THEN conjunct2, THEN conjunct1, rule_format, OF t2, THEN conjunct2]
    by (simp add: ticks_simps)
  have c3: "skipped_images (consume_ts ?W3 (Image 0 []) ?P ?st) = skipped_images ?st
            \<and> number (consume_ts ?W3 (Image 0 []) ?P ?st) = number ?st + 1"
    using time_budget_classification
      [where w = ?W3 and path = ?P and blurred_bg = "Image 0 []" and st = ?st,
       THEN conjunct2, THEN conjunct2, rule_format, OF t3]
    by blast
  from t1 t2 t3 c1 c2 c3 show ?thesis
    by (simp add: tiff_simps)
qed

text \<open>
  Claim C9, with the condition that the harness of findcontour\_time\_10000.cpp adds. A frame
  for which \<^verbatim>\<open>findContours\<close> returns no contour leaves the caller's \<^verbatim>\<open>metrics\<close> as the
  caller initialised them, and the harness passes a fresh \<^verbatim>\<open>ContourMetrics\<close>, every field
  zero. In findcontour\_time\_10000.cpp a frame inside the pixel window whose measured
  duration is positive is then recorded among the \<^verbatim>\<open>results\<close>, with both ratios zero, and
  counted in \<^verbatim>\<open>number\<close>, and nothing is added to \<^verbatim>\<open>skipped_images\<close>: the positive
  duration is needed because the harness's test for a Success is \<^verbatim>\<open>process_time > 0\<close>
  (line 142). In time\_skip.cpp, where the test is the returned \<^verbatim>\<open>bool\<close>, the same holds of
  every frame within the 200 microsecond budget at both measurements.
\<close>

theorem no_contour_is_zero_success:
  fixes w :: "('mat, 'cnt) world" and path :: dir_entry
  defines "p \<equiv> entry_path path"
  defines "now \<equiv> clock_of w (entry_path path)"
  assumes no_contour: "findContours (lib w) (dilate2_of (lib w) p blurred_bg) = []"
  shows "(250 \<le> white_pixel_count_of (lib w) p blurred_bg
          \<and> white_pixel_count_of (lib w) p blurred_bg \<le> 650
          \<and> 0 < now 3 - now 0 \<longrightarrow>
            metrics (process_single_image_fc (lib w) now p blurred_bg
                       \<lparr>contours = [], metrics = ContourMetrics0, duration = indeterminate w,
                        findcontour_duration = indeterminate w\<rparr>) = ContourMetrics0
          \<and> consume_fc w blurred_bg path st
              = record_success_fc p ContourMetrics0 (now 3 - now 0) (now 2 - now 1) st
          \<and> results (consume_fc w blurred_bg path st)
              = results st @ [(p, 0, 0, now 3 - now 0, now 2 - now 1)]
          \<and> number (consume_fc w blurred_bg path st) = number st + 1
          \<and> skipped_images (consume_fc w blurred_bg path st) = skipped_images st)
       \<and> (now 1 - now 0 \<le> 200 \<and> now 2 - now 0 \<le> 200 \<longrightarrow>
            process_single_image_ts (lib w) now p blurred_bg
                \<lparr>contours = [], metrics = ContourMetrics0, duration = indeterminate w\<rparr>
              = (True, \<lparr>contours = [], metrics = ContourMetrics0, duration = now 2 - now 0\<rparr>)
          \<and> consume_ts w blurred_bg path ts
              = record_success_ts p ContourMetrics0 (now 2 - now 0) ts
          \<and> results (consume_ts w blurred_bg path ts)
              = results ts @ [(p, 0, 0, now 2 - now 0)]
          \<and> number (consume_ts w blurred_bg path ts) = number ts + 1
          \<and> skipped_images (consume_ts w blurred_bg path ts) = skipped_images ts)"
proof -
  have fc: "metrics (process_single_image_fc (lib w) now p blurred_bg
                       \<lparr>contours = [], metrics = ContourMetrics0, duration = indeterminate w,
                        findcontour_duration = indeterminate w\<rparr>) = ContourMetrics0
          \<and> consume_fc w blurred_bg path st
              = record_success_fc p ContourMetrics0 (now 3 - now 0) (now 2 - now 1) st"
    if "250 \<le> white_pixel_count_of (lib w) p blurred_bg"
      and "white_pixel_count_of (lib w) p blurred_bg \<le> 650" and "0 < now 3 - now 0"
    using that no_contour consume_fc_inside [of w path blurred_bg st]
    by (simp add: p_def now_def process_single_image_fc_inside)
  have ts: "process_single_image_ts (lib w) now p blurred_bg
                \<lparr>contours = [], metrics = ContourMetrics0, duration = indeterminate w\<rparr>
              = (True, \<lparr>contours = [], metrics = ContourMetrics0, duration = now 2 - now 0\<rparr>)
          \<and> consume_ts w blurred_bg path ts
              = record_success_ts p ContourMetrics0 (now 2 - now 0) ts"
    if "now 1 - now 0 \<le> 200" and "now 2 - now 0 \<le> 200"
    using that no_contour
    by (simp add: p_def now_def process_single_image_ts_cases consume_ts_cases)
  from fc ts show ?thesis
    by (simp add: record_success_fc_fields record_success_ts_fields ContourMetrics0_fields)
qed

theorem no_contour_is_zero_success_witness:
  "findContours (lib demo_world) (dilate2_of (lib demo_world) (entry_path (tiff ''dir'' ''c''))
      (Image 0 [])) = []
   \<and> 250 \<le> white_pixel_count_of (lib demo_world) (entry_path (tiff ''dir'' ''c'')) (Image 0 [])
   \<and> white_pixel_count_of (lib demo_world) (entry_path (tiff ''dir'' ''c'')) (Image 0 []) \<le> 650
   \<and> 0 < clock_of demo_world (entry_path (tiff ''dir'' ''c'')) 3
          - clock_of demo_world (entry_path (tiff ''dir'' ''c'')) 0
   \<and> consume_fc demo_world (Image 0 []) (tiff ''dir'' ''c'')
         \<lparr>total_time = 0, number = 0, max_process_time = 0, results = [], skipped_images = [],
          max_time_image = ([], 0), total_findcontour_time = 0\<rparr>
       = \<lparr>total_time = 120, number = 1, max_process_time = 120,
          results = [(''dir/c.tiff'', 0, 0, 120, 60)], skipped_images = [],
          max_time_image = (''dir/c.tiff'', 120), total_findcontour_time = 60\<rparr>
   \<and> clock_of demo_world (entry_path (tiff ''dir'' ''c'')) 1
          - clock_of demo_world (entry_path (tiff ''dir'' ''c'')) 0 \<le> 200
   \<and> clock_of demo_world (entry_path (tiff ''dir'' ''c'')) 2
          - clock_of demo_world (entry_path (tiff ''dir'' ''c'')) 0 \<le> 200
   \<and> consume_ts demo_world (Image 0 []) (tiff ''dir'' ''c'')
         \<lparr>total_time = 0, number = 0, max_process_time = 0, results = [], skipped_images = [],
          max_time_image = ([], 0)\<rparr>
       = \<lparr>total_time = 100, number = 1, max_process_time = 100,
          results = [(''dir/c.tiff'', 0, 0, 100)], skipped_images = [],
          max_time_image = (''dir/c.tiff'', 100)\<rparr>"
proof -
  let ?p = "tiff ''dir'' ''c''"
  have h: "findContours (lib demo_world) (dilate2_of (lib demo_world) (entry_path ?p)
      (Image 0 [])) = []"
    and a: "250 \<le> white_pixel_count_of (lib demo_world) (entry_path ?p) (Image 0 [])"
      "white_pixel_count_of (lib demo_world) (entry_path ?p) (Image 0 []) \<le> 650"
      "0 < clock_of demo_world (entry_path ?p) 3 - clock_of demo_world (entry_path ?p) 0"
    and b: "clock_of demo_world (entry_path ?p) 1 - clock_of demo_world (entry_path ?p) 0 \<le> 200"
      "clock_of demo_world (entry_path ?p) 2 - clock_of demo_world (entry_path ?p) 0 \<le> 200"
    by (simp_all add: demo_world_simps tiff_simps fake_pipeline demo_files_simps fake_cv_simps
        demo_clock_simps ticks_simps)
  note inst = no_contour_is_zero_success [OF h]
  from inst [THEN conjunct1, rule_format, OF conjI [OF a(1) conjI [OF a(2) a(3)]]]
    inst [THEN conjunct2, rule_format, OF conjI [OF b]]
    h a b
  show ?thesis
    by (simp add: record_success_fc_def record_success_ts_def Let_def ContourMetrics0_fields
        demo_world_simps tiff_simps demo_clock_simps ticks_simps)
qed

text \<open>
  Claim C9 as it stands does not hold of findcontour\_time\_10000.cpp. When the clock gives
  the same reading at the start and at the end of the processing, the frame \<^verbatim>\<open>c.tiff\<close>,
  which is inside the pixel window and has no contour, gets the duration zero, fails the
  harness's test \<^verbatim>\<open>process_time > 0\<close> and is recorded in \<^verbatim>\<open>skipped_images\<close>: it is
  neither in \<^verbatim>\<open>results\<close> nor counted in \<^verbatim>\<open>number\<close>.
\<close>

theorem in_window_frame_without_contour_is_skipped:
  "250 \<le> white_pixel_count_of (lib stall_world) ''dir/c.tiff'' (Image 0 [])
   \<and> white_pixel_count_of (lib stall_world) ''dir/c.tiff'' (Image 0 []) \<le> 650
   \<and> findContours (lib stall_world) (dilate2_of (lib stall_world) ''dir/c.tiff'' (Image 0 [])) = []
   \<and> consume_fc stall_world (Image 0 []) (tiff ''dir'' ''c'')
         \<lparr>total_time = 0, number = 0, max_process_time = 0, results = [], skipped_images = [],
          max_time_image = ([], 0), total_findcontour_time = 0\<rparr>
       = \<lparr>total_time = 0, number = 0, max_process_time = 0, results = [],
          skipped_images = [''dir/c.tiff''], max_time_image = ([], 0),
          total_findcontour_time = 0\<rparr>"
proof -
  have window: "250 \<le> white_pixel_count_of (lib stall_world) ''dir/c.tiff'' (Image 0 [])"
    "white_pixel_count_of (lib stall_world) ''dir/c.tiff'' (Image 0 []) \<le> 650"
    and none: "findContours (lib stall_world)
                 (dilate2_of (lib stall_world) ''dir/c.tiff'' (Image 0 [])) = []"
    by (simp_all add: stall_world_simps fake_pipeline demo_files_simps fake_cv_simps)
  have "duration (outcome_fc stall_world (Image 0 []) (tiff ''dir'' ''c'')) = 0"
    using window none
    by (simp add: outcome_fc_def process_single_image_fc_inside tiff_simps stall_world_simps
        ticks_simps)
  then have "consume_fc stall_world (Image 0 []) (tiff ''dir'' ''c'')
         \<lparr>total_time = 0, number = 0, max_process_time = 0, results = [], skipped_images = [],
          max_time_image = ([], 0), total_findcontour_time = 0\<rparr>
       = \<lparr>total_time = 0, number = 0, max_process_time = 0, results = [],
          skipped_images = [''dir/c.tiff''], max_time_image = ([], 0),
          total_findcontour_time = 0\<rparr>"
    by (simp add: consume_fc_def outcome_fc_def record_skip_fc_def tiff_simps Let_def)
  with window none show ?thesis by simp
qed

section \<open>Properties of a run\<close>

lemma consume_fc_processed:
  "consume_fc w blurred_bg path st =
     (if processed_fc w blurred_bg path
      then record_success_fc (entry_path path) (metrics (outcome_fc w blurred_bg path))
             (duration (outcome_fc w blurred_bg path))
             (findcontour_duration (outcome_fc w blurred_bg path)) st
      else record_skip_fc (entry_path path) st)"
  by (simp add: consume_fc_def processed_fc_def outcome_fc_def Let_def)

lemma consume_ts_processed:
  "consume_ts w blurred_bg path st =
     (if processed_ts w blurred_bg path
      then record_success_ts (entry_path path) (metrics (snd (outcome_ts w blurred_bg path)))
             (duration (snd (outcome_ts w blurred_bg path))) st
      else record_skip_ts (entry_path path) (duration (snd (outcome_ts w blurred_bg path))) st)"
  by (simp add: consume_ts_def processed_ts_def outcome_ts_def Let_def split: prod.split)

lemma consume_mt_processed:
  "consume_mt w blurred_bg path st =
     (if processed_mt w blurred_bg path
      then record_success_mt path (duration (outcome_mt w blurred_bg path)) st
      else st)"
  by (simp add: consume_mt_def processed_mt_def outcome_mt_def Let_def)

lemma run_fc_lists:
  "results (foldl (\<lambda>st path. consume_fc w bg path st) st0 items)
     = results st0 @ map (result_fc_of w bg) (filter (processed_fc w bg) items)
   \<and> skipped_images (foldl (\<lambda>st path. consume_fc w bg path st) st0 items)
     = skipped_images st0 @ map entry_path (filter (\<lambda>p. \<not> processed_fc w bg p) items)
   \<and> number (foldl (\<lambda>st path. consume_fc w bg path st) st0 items)
     = number st0 + of_nat (length (filter (processed_fc w bg) items))"
proof (induction items rule: rev_induct)
  case Nil
  show ?case by simp
next
  case (snoc x xs)
  then show ?case
    by (simp add: consume_fc_processed record_success_fc_fields record_skip_fc_fields
        result_fc_of_def)
qed

lemma run_ts_lists:
  "results (foldl (\<lambda>st path. consume_ts w bg path st) st0 items)
     = results st0 @ map (result_ts_of w bg) (filter (processed_ts w bg) items)
   \<and> skipped_images (foldl (\<lambda>st path. consume_ts w bg path st) st0 items)
     = skipped_images st0 @ map (skip_ts_of w bg) (filter (\<lambda>p. \<not> processed_ts w bg p) items)
   \<and> number (foldl (\<lambda>st path. consume_ts w bg path st) st0 items)
     = number st0 + of_nat (length (filter (processed_ts w bg) items))"
proof (induction items rule: rev_induct)
  case Nil
  show ?case by simp
next
  case (snoc x xs)
  then show ?case
    by (simp add: consume_ts_processed record_success_ts_fields record_skip_ts_fields
        result_ts_of_def skip_ts_of_def)
qed

lemma run_mt_number:
  "number (foldl (\<lambda>st path. consume_mt w bg path st) st0 items)
     = number st0 + of_nat (length (filter (processed_mt w bg) items))"
proof (induction items rule: rev_induct)
  case Nil
  show ?case by simp
next
  case (snoc x xs)
  then show ?case
    by (simp add: consume_mt_processed record_success_mt_def Let_def)
qed

lemma length_filter_partition:
  "length (filter P xs) + length (filter (\<lambda>x. \<not> P x) xs) = length xs"
  by (induction xs) auto

lemma run_experiment_fc_readable:
  assumes "\<not> Mat_empty (lib w) (background_of w directory)"
  shows "run_experiment_fc w directory rs sk mti =
           ([], foldl (\<lambda>st path. consume_fc w (blurred_bg_of w directory) path st)
                  \<lparr>total_time = 0, number = 0, max_process_time = 0, results = rs,
                   skipped_images = sk, max_time_image = mti, total_findcontour_time = 0\<rparr>
                  (enumerated (entries w)))"
  using assms by (simp add: run_experiment_fc_def background_of_def blurred_bg_of_def Let_def)

lemma run_experiment_fc_unreadable:
  assumes "Mat_empty (lib w) (background_of w directory)"
  shows "run_experiment_fc w directory rs sk mti =
           ([''Error: Could not read background image: '' @ directory @ ''/background.tiff''],
            \<lparr>total_time = 0, number = 0, max_process_time = 0, results = rs,
             skipped_images = sk, max_time_image = mti, total_findcontour_time = 0\<rparr>)"
  using assms by (simp add: run_experiment_fc_def background_of_def Let_def)

lemma run_experiment_ts_readable:
  assumes "\<not> Mat_empty (lib w) (background_of w directory)"
  shows "run_experiment_ts w directory rs sk mti =
           ([], foldl (\<lambda>st path. consume_ts w (blurred_bg_of w directory) path st)
                  \<lparr>total_time = 0, number = 0, max_process_time = 0, results = rs,
                   skipped_images = sk, max_time_image = mti\<rparr>
                  (enumerated (entries w)))"
  using assms by (simp add: run_experiment_ts_def background_of_def blurred_bg_of_def Let_def)

section \<open>The running maximum\<close>

lemma first_maximum_single: "first_maximum f [r] r"
  unfolding first_maximum_def by (rule exI [of _ "[]"], rule exI [of _ "[]"]) simp

lemma first_maximum_snoc_greater:
  assumes "first_maximum f xs r" and "f r < f y"
  shows "first_maximum f (xs @ [y]) y"
proof -
  from assms(1) obtain pre post where xs: "xs = pre @ r # post"
    and before: "\<forall>x\<in>set pre. f x < f r" and after: "\<forall>x\<in>set post. f x \<le> f r"
    unfolding first_maximum_def by blast
  have "\<forall>x\<in>set xs. f x < f y"
  proof
    fix x assume "x \<in> set xs"
    then consider "x \<in> set pre" | "x = r" | "x \<in> set post" using xs by auto
    then show "f x < f y"
    proof cases
      case 1 with before assms(2) show ?thesis by fastforce
    next
      case 2 with assms(2) show ?thesis by simp
    next
      case 3 with after assms(2) show ?thesis by fastforce
    qed
  qed
  then show ?thesis
    unfolding first_maximum_def by (intro exI [of _ xs] exI [of _ "[]"]) simp
qed

lemma first_maximum_snoc_not_greater:
  assumes "first_maximum f xs r" and "f y \<le> f r"
  shows "first_maximum f (xs @ [y]) r"
proof -
  from assms(1) obtain pre post where xs: "xs = pre @ r # post"
    and before: "\<forall>x\<in>set pre. f x < f r" and after: "\<forall>x\<in>set post. f x \<le> f r"
    unfolding first_maximum_def by blast
  show ?thesis
    unfolding first_maximum_def
    using xs before after assms(2) by (intro exI [of _ pre] exI [of _ "post @ [y]"]) simp
qed

lemma process_time_fc_result [simp]:
  "process_time_fc (result_fc_of w bg x) = duration (outcome_fc w bg x)"
  "fst (result_fc_of w bg x) = entry_path x"
  by (simp_all add: process_time_fc_def result_fc_of_def)

lemma record_success_fc_max:
  "max_process_time (record_success_fc p m t ft st)
     = (if t > max_process_time st then t else max_process_time st)"
  "max_time_image (record_success_fc p m t ft st)
     = (if t > max_process_time st then (p, t) else max_time_image st)"
  by (simp_all add: record_success_fc_def Let_def)

lemma record_success_mt_max:
  "max_process_time (record_success_mt x t st)
     = (if t > max_process_time st then t else max_process_time st)"
  "max_processing_time_image (record_success_mt x t st)
     = (if t > max_process_time st then filename x else max_processing_time_image st)"
  by (simp_all add: record_success_mt_def Let_def)

lemma run_fc_max:
  fixes w :: "('mat, 'cnt) world" and bg :: 'mat and st0 :: state_fc
  defines "run \<equiv> \<lambda>items. foldl (\<lambda>st path. consume_fc w bg path st) st0 items"
  assumes "results st0 = []" and "max_process_time st0 = 0"
  shows "(results (run items) = [] \<and> max_process_time (run items) = 0)
       \<or> (\<exists>r. first_maximum process_time_fc (results (run items)) r
              \<and> max_time_image (run items) = (fst r, process_time_fc r)
              \<and> max_process_time (run items) = process_time_fc r)"
proof (induction items rule: rev_induct)
  case Nil
  show ?case using assms by (simp add: run_def)
next
  case (snoc x xs)
  let ?st = "run xs"
  let ?new = "result_fc_of w bg x"
  have step: "run (xs @ [x]) = consume_fc w bg x ?st" by (simp add: run_def)
  show ?case
  proof (cases "processed_fc w bg x")
    case False
    then have "run (xs @ [x]) = record_skip_fc (entry_path x) ?st"
      by (simp add: step consume_fc_processed)
    with snoc show ?thesis by (simp add: record_skip_fc_fields)
  next
    case True
    then have positive: "0 < process_time_fc ?new" by (simp add: processed_fc_def)
    have succ: "run (xs @ [x]) = record_success_fc (entry_path x) (metrics (outcome_fc w bg x))
                  (process_time_fc ?new) (findcontour_duration (outcome_fc w bg x)) ?st"
      using True by (simp add: step consume_fc_processed)
    have res: "results (run (xs @ [x])) = results ?st @ [?new]"
      by (simp add: succ record_success_fc_fields result_fc_of_def process_time_fc_def)
    from snoc consider
        (empty) "results ?st = []" "max_process_time ?st = 0"
      | (some) r where "first_maximum process_time_fc (results ?st) r"
          "max_time_image ?st = (fst r, process_time_fc r)"
          "max_process_time ?st = process_time_fc r"
      by blast
    then show ?thesis
    proof cases
      case empty
      have "first_maximum process_time_fc (results (run (xs @ [x]))) ?new"
        by (simp add: res empty first_maximum_single)
      moreover have "max_time_image (run (xs @ [x])) = (fst ?new, process_time_fc ?new)"
        and "max_process_time (run (xs @ [x])) = process_time_fc ?new"
        using positive empty by (simp_all add: succ record_success_fc_max)
      ultimately show ?thesis by blast
    next
      case some
      show ?thesis
      proof (cases "process_time_fc ?new > process_time_fc r")
        case True
        have "first_maximum process_time_fc (results (run (xs @ [x]))) ?new"
          using some(1) True by (simp add: res first_maximum_snoc_greater)
        moreover have "max_time_image (run (xs @ [x])) = (fst ?new, process_time_fc ?new)"
          and "max_process_time (run (xs @ [x])) = process_time_fc ?new"
          using True some by (simp_all add: succ record_success_fc_max)
        ultimately show ?thesis by blast
      next
        case False
        then have le: "process_time_fc ?new \<le> process_time_fc r" by simp
        have "first_maximum process_time_fc (results (run (xs @ [x]))) r"
          using some(1) le by (simp add: res first_maximum_snoc_not_greater)
        moreover have "max_time_image (run (xs @ [x])) = (fst r, process_time_fc r)"
          and "max_process_time (run (xs @ [x])) = process_time_fc r"
          using False some by (simp_all add: succ record_success_fc_max)
        ultimately show ?thesis by blast
      qed
    qed
  qed
qed

lemma run_mt_max:
  fixes w :: "('mat, 'cnt) world" and bg :: 'mat and st0 :: harness_mt
  defines "run \<equiv> \<lambda>items. foldl (\<lambda>st path. consume_mt w bg path st) st0 items"
  assumes "max_process_time st0 = 0"
  shows "(filter (processed_mt w bg) items = [] \<and> max_process_time (run items) = 0)
       \<or> (\<exists>r. first_maximum (process_time_mt w bg) (filter (processed_mt w bg) items) r
              \<and> max_processing_time_image (run items) = filename r
              \<and> max_process_time (run items) = process_time_mt w bg r)"
proof (induction items rule: rev_induct)
  case Nil
  show ?case using assms by (simp add: run_def)
next
  case (snoc x xs)
  let ?st = "run xs"
  let ?ok = "filter (processed_mt w bg) xs"
  have step: "run (xs @ [x]) = consume_mt w bg x ?st" by (simp add: run_def)
  show ?case
  proof (cases "processed_mt w bg x")
    case False
    then have "run (xs @ [x]) = ?st" by (simp add: step consume_mt_processed)
    with snoc False show ?thesis by simp
  next
    case True
    then have positive: "0 < process_time_mt w bg x"
      by (simp add: processed_mt_def process_time_mt_def)
    have succ: "run (xs @ [x]) = record_success_mt x (process_time_mt w bg x) ?st"
      using True by (simp add: step consume_mt_processed process_time_mt_def)
    have res: "filter (processed_mt w bg) (xs @ [x]) = ?ok @ [x]" using True by simp
    from snoc consider
        (empty) "?ok = []" "max_process_time ?st = 0"
      | (some) r where "first_maximum (process_time_mt w bg) ?ok r"
          "max_processing_time_image ?st = filename r"
          "max_process_time ?st = process_time_mt w bg r"
      by blast
    then show ?thesis
    proof cases
      case empty
      have "first_maximum (process_time_mt w bg) (filter (processed_mt w bg) (xs @ [x])) x"
        by (simp add: res empty first_maximum_single del: filter_append)
      moreover have "max_processing_time_image (run (xs @ [x])) = filename x"
        and "max_process_time (run (xs @ [x])) = process_time_mt w bg x"
        using positive empty by (simp_all add: succ record_success_mt_max)
      ultimately show ?thesis by blast
    next
      case some
      show ?thesis
      proof (cases "process_time_mt w bg x > process_time_mt w bg r")
        case True
        have "first_maximum (process_time_mt w bg) (filter (processed_mt w bg) (xs @ [x])) x"
          using some(1) True by (simp add: res first_maximum_snoc_greater del: filter_append)
        moreover have "max_processing_time_image (run (xs @ [x])) = filename x"
          and "max_process_time (run (xs @ [x])) = process_time_mt w bg x"
          using True some by (simp_all add: succ record_success_mt_max)
        ultimately show ?thesis by blast
      next
        case False
        then have le: "process_time_mt w bg x \<le> process_time_mt w bg r" by simp
        have "first_maximum (process_time_mt w bg) (filter (processed_mt w bg) (xs @ [x])) r"
          using some(1) le by (simp add: res first_maximum_snoc_not_greater del: filter_append)
        moreover have "max_processing_time_image (run (xs @ [x])) = filename r"
          and "max_process_time (run (xs @ [x])) = process_time_mt w bg r"
          using False some by (simp_all add: succ record_success_mt_max)
        ultimately show ?thesis by blast
      qed
    qed
  qed
qed

lemma first_maximum_pair:
  assumes "first_maximum f [x, y] r"
  shows "(r = x \<and> f y \<le> f x) \<or> (r = y \<and> f x < f y)"
proof -
  from assms obtain pre post where eq: "[x, y] = pre @ r # post"
    and before: "\<forall>z\<in>set pre. f z < f r" and after: "\<forall>z\<in>set post. f z \<le> f r"
    unfolding first_maximum_def by blast
  from eq consider "pre = []" "r = x" "post = [y]" | "pre = [x]" "r = y" "post = []"
    by (cases pre) (auto simp: Cons_eq_append_conv)
  then show ?thesis using before after by cases auto
qed

lemma demo_metrics_b:
  "calculate_contour_metrics (fake_cv demo_files) [shape_a, shape_b]
     = \<lparr>area_original = 9, area_hull = 16, area_ratio = 16 / 9,
        circularity_original = 4 * pi * 9 / 144, circularity_hull = 4 * pi * 16 / 256,
        circularity_ratio = 1\<rparr>"
  by (simp add: calculate_contour_metrics_def shape_a_def shape_b_def fake_cv_simps tiny_def
      Let_def)

lemma demo_items:
  "enumerated (entries demo_world) = [tiff ''dir'' ''a'', tiff ''dir'' ''b'', tiff ''dir'' ''c'']"
  by (simp add: enumerated_def demo_world_simps tiff_simps)

lemma demo_background:
  "background_of demo_world ''dir'' = Image 0 []"
  "blurred_bg_of demo_world ''dir'' = Image 0 []"
  "\<not> Mat_empty (lib demo_world) (background_of demo_world ''dir'')"
  by (simp_all add: background_of_def blurred_bg_of_def demo_world_simps fake_cv_simps
      demo_files_simps)

lemma demo_outcome_fc:
  "outcome_fc demo_world (Image 0 []) (tiff ''dir'' ''a'')
     = \<lparr>contours = [], metrics = ContourMetrics0, duration = 0, findcontour_duration = 7\<rparr>"
  "outcome_fc demo_world (Image 0 []) (tiff ''dir'' ''b'')
     = \<lparr>contours = [shape_a, shape_b],
        metrics = calculate_contour_metrics (fake_cv demo_files) [shape_a, shape_b],
        duration = 50, findcontour_duration = 20\<rparr>"
  "outcome_fc demo_world (Image 0 []) (tiff ''dir'' ''c'')
     = \<lparr>contours = [], metrics = ContourMetrics0, duration = 120, findcontour_duration = 60\<rparr>"
  by (simp_all add: outcome_fc_def process_single_image_fc_outside
      process_single_image_fc_inside demo_world_simps tiff_simps fake_pipeline
      demo_files_simps fake_cv_simps demo_clock_simps ticks_simps)

lemma demo_run_fc:
  "run_experiment_fc demo_world ''dir'' [] [] ([], 0)
     = ([], \<lparr>total_time = 170, number = 2, max_process_time = 120,
             results = [(''dir/b.tiff'', 1, 16 / 9, 50, 20), (''dir/c.tiff'', 0, 0, 120, 60)],
             skipped_images = [''dir/a.tiff''],
             max_time_image = (''dir/c.tiff'', 120),
             total_findcontour_time = 80\<rparr>)"
  by (simp add: run_experiment_fc_readable [OF demo_background(3)] demo_background(1,2)
      demo_items consume_fc_processed processed_fc_def demo_outcome_fc record_success_fc_def
      record_skip_fc_def Let_def demo_metrics_b ContourMetrics0_fields tiff_simps)


text \<open>
  Claim C5. After a run with at least one Success, \<^verbatim>\<open>max_time_image\<close> holds the path and the
  processing time of a Success that is the first maximum of the run's Successes in the order
  they were recorded: every Success recorded before it took strictly less time and none
  recorded after it took more; \<^verbatim>\<open>max_process_time\<close> is that time. The pair is replaced only
  by a strictly greater time. The same holds in max\_time.cpp for
  \<^verbatim>\<open>max_processing_time_image\<close>, which holds the file name, over the enumerated paths with a
  positive measured time in the order they were handled.
\<close>

theorem max_item_is_first_maximum:
  fixes w :: "('mat, 'cnt) world" and directory :: string and mti :: "string \<times> real"
    and name :: string and bg :: 'mat and st :: state_fc
  defines "fc \<equiv> snd (run_experiment_fc w directory [] [] mti)"
  defines "mt \<equiv> run_experiment_mt w bg name"
  defines "successes \<equiv> filter (processed_mt w bg) (enumerated (entries w))"
  shows "(results fc \<noteq> [] \<longrightarrow>
           (\<exists>r. first_maximum process_time_fc (results fc) r
                \<and> max_time_image fc = (fst r, process_time_fc r)
                \<and> max_process_time fc = process_time_fc r))
       \<and> (successes \<noteq> [] \<longrightarrow>
           (\<exists>r. first_maximum (process_time_mt w bg) successes r
                \<and> max_processing_time_image mt = filename r
                \<and> max_process_time mt = process_time_mt w bg r))
       \<and> max_time_image (record_success_fc p m t ft st)
           = (if t > max_process_time st then (p, t) else max_time_image st)
       \<and> max_process_time (record_success_fc p m t ft st)
           = (if t > max_process_time st then t else max_process_time st)"
proof -
  have fc_part: "\<exists>r. first_maximum process_time_fc (results fc) r
                \<and> max_time_image fc = (fst r, process_time_fc r)
                \<and> max_process_time fc = process_time_fc r" if nonempty: "results fc \<noteq> []"
  proof (cases "Mat_empty (lib w) (background_of w directory)")
    case True
    then have "results fc = []" by (simp add: fc_def run_experiment_fc_unreadable)
    with nonempty show ?thesis by simp
  next
    case False
    let ?st0 = "\<lparr>total_time = 0, number = 0, max_process_time = 0, results = [],
                  skipped_images = [], max_time_image = mti, total_findcontour_time = 0\<rparr>
                :: state_fc"
    have "fc = foldl (\<lambda>st path. consume_fc w (blurred_bg_of w directory) path st) ?st0
                 (enumerated (entries w))"
      by (simp add: fc_def run_experiment_fc_readable [OF False])
    with run_fc_max [of ?st0 w "blurred_bg_of w directory" "enumerated (entries w)"] nonempty
    show ?thesis by simp
  qed
  have mt_part: "\<exists>r. first_maximum (process_time_mt w bg) successes r
                \<and> max_processing_time_image mt = filename r
                \<and> max_process_time mt = process_time_mt w bg r" if nonempty: "successes \<noteq> []"
  proof -
    let ?st0 = "\<lparr>total_time = 0, number = 0, max_process_time = 0,
                  max_processing_time_image = name\<rparr>"
    have "mt = foldl (\<lambda>st path. consume_mt w bg path st) ?st0 (enumerated (entries w))"
      by (simp add: mt_def run_experiment_mt_def)
    with run_mt_max [of ?st0 w bg "enumerated (entries w)"] nonempty
    show ?thesis by (simp add: successes_def)
  qed
  from fc_part mt_part show ?thesis by (simp add: record_success_fc_max)
qed

theorem max_item_is_first_maximum_witness:
  "results (snd (run_experiment_fc demo_world ''dir'' [] [] ([], 0)))
     = [(''dir/b.tiff'', 1, 16 / 9, 50, 20), (''dir/c.tiff'', 0, 0, 120, 60)]
   \<and> max_time_image (snd (run_experiment_fc demo_world ''dir'' [] [] ([], 0)))
     = (''dir/c.tiff'', 120)
   \<and> filter (processed_mt (demo_world\<lparr>entries := [tiff ''dir'' ''a'', tiff ''dir'' ''b'']\<rparr>)
        (Image 0 []))
        (enumerated (entries (demo_world\<lparr>entries := [tiff ''dir'' ''a'', tiff ''dir'' ''b'']\<rparr>)))
     = [tiff ''dir'' ''a'', tiff ''dir'' ''b'']
   \<and> process_time_mt (demo_world\<lparr>entries := [tiff ''dir'' ''a'', tiff ''dir'' ''b'']\<rparr>)
        (Image 0 []) (tiff ''dir'' ''a'') = 10
   \<and> process_time_mt (demo_world\<lparr>entries := [tiff ''dir'' ''a'', tiff ''dir'' ''b'']\<rparr>)
        (Image 0 []) (tiff ''dir'' ''b'') = 10
   \<and> max_processing_time_image
        (run_experiment_mt (demo_world\<lparr>entries := [tiff ''dir'' ''a'', tiff ''dir'' ''b'']\<rparr>)
           (Image 0 []) []) = ''a.tiff''"
proof -
  let ?W = "demo_world\<lparr>entries := [tiff ''dir'' ''a'', tiff ''dir'' ''b'']\<rparr>"
  let ?rb = "(''dir/b.tiff'', 1, 16 / 9, 50, 20) :: result_fc"
  let ?rc = "(''dir/c.tiff'', 0, 0, 120, 60) :: result_fc"
  have res: "results (snd (run_experiment_fc demo_world ''dir'' [] [] ([], 0))) = [?rb, ?rc]"
    by (simp add: demo_run_fc)
  have times: "process_time_mt ?W (Image 0 []) (tiff ''dir'' ''a'') = 10"
    "process_time_mt ?W (Image 0 []) (tiff ''dir'' ''b'') = 10"
    by (simp_all add: process_time_mt_def outcome_mt_def process_single_image_mt_eq
        demo_world_simps tiff_simps demo_clock_simps ticks_simps)
  have ok: "filter (processed_mt ?W (Image 0 [])) (enumerated (entries ?W))
              = [tiff ''dir'' ''a'', tiff ''dir'' ''b'']"
    using times by (simp add: enumerated_def tiff_simps processed_mt_def process_time_mt_def)
  note inst1 = max_item_is_first_maximum
    [where w = demo_world and directory = "''dir''" and mti = "([], 0)",
     THEN conjunct1, rule_format]
  note inst2 = max_item_is_first_maximum
    [where w = ?W and bg = "Image 0 []" and name = "[]",
     THEN conjunct2, THEN conjunct1, rule_format]
  from inst1 res obtain r where r: "first_maximum process_time_fc [?rb, ?rc] r"
    and img: "max_time_image (snd (run_experiment_fc demo_world ''dir'' [] [] ([], 0)))
                = (fst r, process_time_fc r)"
    by auto
  from first_maximum_pair [OF r] have "r = ?rc" by (auto simp: process_time_fc_def)
  with img have fc: "max_time_image (snd (run_experiment_fc demo_world ''dir'' [] [] ([], 0)))
                       = (''dir/c.tiff'', 120)"
    by (simp add: process_time_fc_def)
  from inst2 ok obtain q
    where q: "first_maximum (process_time_mt ?W (Image 0 [])) [tiff ''dir'' ''a'', tiff ''dir'' ''b''] q"
    and name: "max_processing_time_image (run_experiment_mt ?W (Image 0 []) []) = filename q"
    by auto
  from first_maximum_pair [OF q] times have "q = tiff ''dir'' ''a''" by auto
  with name have mt: "max_processing_time_image (run_experiment_mt ?W (Image 0 []) []) = ''a.tiff''"
    by (simp add: tiff_simps)
  from res fc ok times mt show ?thesis by simp
qed

section \<open>The repetition loop of findcontour\_time\_10000.cpp\<close>

lemma add_result_fc_eq:
  "add_result_fc ms r =
     ms\<lparr>total_circularity_ratio := total_circularity_ratio ms + circularity_ratio_fc r,
        total_area_ratio := total_area_ratio ms + area_ratio_fc r,
        total_processing_time := total_processing_time ms + process_time_fc r,
        m_total_findcontour_time := m_total_findcontour_time ms + findcontour_time_fc r\<rparr>"
  by (cases r)
    (simp add: add_result_fc_def circularity_ratio_fc_def area_ratio_fc_def
      process_time_fc_def findcontour_time_fc_def)

lemma foldl_add_result_fc:
  "foldl add_result_fc ms rs =
     ms\<lparr>total_circularity_ratio := total_circularity_ratio ms + sum_list (map circularity_ratio_fc rs),
        total_area_ratio := total_area_ratio ms + sum_list (map area_ratio_fc rs),
        total_processing_time := total_processing_time ms + sum_list (map process_time_fc rs),
        m_total_findcontour_time :=
          m_total_findcontour_time ms + sum_list (map findcontour_time_fc rs)\<rparr>"
proof (induction rs rule: rev_induct)
  case Nil
  show ?case by simp
next
  case (snoc r rs)
  have "foldl add_result_fc ms (rs @ [r]) = add_result_fc (foldl add_result_fc ms rs) r"
    by simp
  also have "\<dots> = add_result_fc
     (ms\<lparr>total_circularity_ratio := total_circularity_ratio ms + sum_list (map circularity_ratio_fc rs),
        total_area_ratio := total_area_ratio ms + sum_list (map area_ratio_fc rs),
        total_processing_time := total_processing_time ms + sum_list (map process_time_fc rs),
        m_total_findcontour_time :=
          m_total_findcontour_time ms + sum_list (map findcontour_time_fc rs)\<rparr>) r"
    by (simp only: snoc)
  finally have unfolded: "foldl add_result_fc ms (rs @ [r]) = add_result_fc
     (ms\<lparr>total_circularity_ratio := total_circularity_ratio ms + sum_list (map circularity_ratio_fc rs),
        total_area_ratio := total_area_ratio ms + sum_list (map area_ratio_fc rs),
        total_processing_time := total_processing_time ms + sum_list (map process_time_fc rs),
        m_total_findcontour_time :=
          m_total_findcontour_time ms + sum_list (map findcontour_time_fc rs)\<rparr>) r" .
  show ?case by (subst unfolded) (simp add: add_result_fc_eq add.assoc)
qed

lemma main_loop_fc_0:
  "main_loop_fc directory 0 worlds =
     \<lparr>m_results = [], m_skipped_images = [], m_max_time_image = ([], 0),
      total_circularity_ratio = 0, total_area_ratio = 0, total_processing_time = 0,
      m_total_findcontour_time = 0, cerr = []\<rparr>"
  by (simp add: main_loop_fc_def)

lemma main_loop_fc_Suc:
  "main_loop_fc directory (Suc n) worlds =
     repetition_fc directory (worlds n) (main_loop_fc directory n worlds)"
  by (simp add: main_loop_fc_def)

lemma repetition_fc_fields:
  "m_results (repetition_fc directory w ms) = run_results_fc directory w"
  "total_circularity_ratio (repetition_fc directory w ms)
     = total_circularity_ratio ms + sum_list (map circularity_ratio_fc (run_results_fc directory w))"
  "total_area_ratio (repetition_fc directory w ms)
     = total_area_ratio ms + sum_list (map area_ratio_fc (run_results_fc directory w))"
  "total_processing_time (repetition_fc directory w ms)
     = total_processing_time ms + sum_list (map process_time_fc (run_results_fc directory w))"
  "m_total_findcontour_time (repetition_fc directory w ms)
     = m_total_findcontour_time ms + sum_list (map findcontour_time_fc (run_results_fc directory w))"
  "cerr (repetition_fc directory w ms)
     = cerr ms @ fst (run_experiment_fc w directory [] [] ([], 0))"
  by (simp_all add: repetition_fc_def run_results_fc_def foldl_add_result_fc split: prod.split)

lemma all_successes_fc_Suc:
  "all_successes_fc directory (Suc n) worlds
     = all_successes_fc directory n worlds @ run_results_fc directory (worlds n)"
  by (simp add: all_successes_fc_def)

lemma main_loop_fc_totals:
  "total_circularity_ratio (main_loop_fc directory n worlds)
     = sum_list (map circularity_ratio_fc (all_successes_fc directory n worlds))
   \<and> total_area_ratio (main_loop_fc directory n worlds)
     = sum_list (map area_ratio_fc (all_successes_fc directory n worlds))
   \<and> total_processing_time (main_loop_fc directory n worlds)
     = sum_list (map process_time_fc (all_successes_fc directory n worlds))
   \<and> m_total_findcontour_time (main_loop_fc directory n worlds)
     = sum_list (map findcontour_time_fc (all_successes_fc directory n worlds))"
proof (induction n)
  case 0
  show ?case by (simp add: main_loop_fc_0 all_successes_fc_def)
next
  case (Suc n)
  then show ?case
    by (simp add: main_loop_fc_Suc repetition_fc_fields all_successes_fc_Suc)
qed

lemma main_loop_fc_last_results:
  "m_results (main_loop_fc directory (Suc n) worlds) = run_results_fc directory (worlds n)"
  by (simp add: main_loop_fc_Suc repetition_fc_fields)

text \<open>
  What \<^verbatim>\<open>main\<close> prints: the sums run over every Success of every repetition, and the divisor
  is the number of Successes of the last repetition times the number of repetitions.
\<close>

lemma main_fc_averages:
  fixes worlds :: "nat \<Rightarrow> ('mat, 'cnt) world" and directory :: string and n :: nat
  defines "every \<equiv> all_successes_fc directory (Suc n) worlds"
  defines "divisor \<equiv> length (run_results_fc directory (worlds n)) * Suc n"
  shows "average_processing_time (main_fc directory (Suc n) worlds)
           = (if divisor > 0 then sum_list (map process_time_fc every) / real divisor else 0)
       \<and> average_findcontour_time (main_fc directory (Suc n) worlds)
           = (if divisor > 0 then sum_list (map findcontour_time_fc every) / real divisor else 0)
       \<and> average_circularity_ratio (main_fc directory (Suc n) worlds)
           = (if divisor > 0 then sum_list (map circularity_ratio_fc every) / real divisor else 0)
       \<and> average_area_ratio (main_fc directory (Suc n) worlds)
           = (if divisor > 0 then sum_list (map area_ratio_fc every) / real divisor else 0)"
  unfolding every_def divisor_def
  using main_loop_fc_totals [of directory "Suc n" worlds]
    main_loop_fc_last_results [of directory n worlds]
  by (simp add: main_fc_def Let_def)

lemma demo_run_results:
  "run_results_fc ''dir'' demo_world
     = [(''dir/b.tiff'', 1, 16 / 9, 50, 20), (''dir/c.tiff'', 0, 0, 120, 60)]"
  by (simp add: run_results_fc_def demo_run_fc)

lemma demo_items_without_c:
  "enumerated (entries demo_world_without_c) = [tiff ''dir'' ''a'', tiff ''dir'' ''b'']"
  by (simp add: enumerated_def demo_world_without_c_def tiff_simps)

lemma demo_without_c_run_results:
  "run_results_fc ''dir'' demo_world_without_c = [(''dir/b.tiff'', 1, 16 / 9, 50, 20)]"
proof -
  have bg: "background_of demo_world_without_c ''dir'' = Image 0 []"
    "blurred_bg_of demo_world_without_c ''dir'' = Image 0 []"
    and readable: "\<not> Mat_empty (lib demo_world_without_c) (background_of demo_world_without_c ''dir'')"
    by (simp_all add: background_of_def blurred_bg_of_def demo_world_without_c_def
        demo_world_simps fake_cv_simps demo_files_simps)
  have same: "outcome_fc demo_world_without_c (Image 0 []) p = outcome_fc demo_world (Image 0 []) p"
    for p
    by (simp add: outcome_fc_def demo_world_without_c_def)
  show ?thesis
    by (simp add: run_results_fc_def run_experiment_fc_readable [OF readable] bg
        demo_items_without_c consume_fc_processed processed_fc_def same demo_outcome_fc
        record_success_fc_def record_skip_fc_def Let_def demo_metrics_b tiff_simps)
qed

lemma length_all_successes_fc_equal:
  assumes "\<forall>i<n. length (run_results_fc directory (worlds i)) = k"
  shows "length (all_successes_fc directory n worlds) = k * n"
  using assms
proof (induction n)
  case 0
  show ?case by (simp add: all_successes_fc_def)
next
  case (Suc n)
  then show ?case by (simp add: all_successes_fc_Suc)
qed

text \<open>
  When every repetition has the same number of Successes, the divisor is the number of all
  Successes and the printed averages are the averages over all of them.
\<close>

lemma main_fc_averages_equal_counts:
  fixes worlds :: "nat \<Rightarrow> ('mat, 'cnt) world" and directory :: string and n :: nat
  defines "every \<equiv> all_successes_fc directory (Suc n) worlds"
  assumes same: "\<forall>i<Suc n. length (run_results_fc directory (worlds i)) = k" and "0 < k"
  shows "average_processing_time (main_fc directory (Suc n) worlds)
           = sum_list (map process_time_fc every) / real (length every)
       \<and> average_findcontour_time (main_fc directory (Suc n) worlds)
           = sum_list (map findcontour_time_fc every) / real (length every)
       \<and> average_circularity_ratio (main_fc directory (Suc n) worlds)
           = sum_list (map circularity_ratio_fc every) / real (length every)
       \<and> average_area_ratio (main_fc directory (Suc n) worlds)
           = sum_list (map area_ratio_fc every) / real (length every)"
proof -
  have "length every = k * Suc n"
    unfolding every_def using same by (rule length_all_successes_fc_equal)
  moreover have "length (run_results_fc directory (worlds n)) = k" using same by simp
  ultimately show ?thesis
    using main_fc_averages [where directory = directory and worlds = worlds and n = n] \<open>0 < k\<close>
    by (simp add: every_def)
qed

theorem main_fc_averages_equal_counts_witness:
  "length (run_results_fc ''dir'' demo_world) = 2
   \<and> length (all_successes_fc ''dir'' 2 (\<lambda>i. demo_world)) = 4
   \<and> sum_list (map process_time_fc (all_successes_fc ''dir'' 2 (\<lambda>i. demo_world))) = 340
   \<and> average_processing_time (main_fc ''dir'' 2 (\<lambda>i. demo_world)) = 85
   \<and> average_findcontour_time (main_fc ''dir'' 2 (\<lambda>i. demo_world)) = 40
   \<and> average_circularity_ratio (main_fc ''dir'' 2 (\<lambda>i. demo_world)) = 1 / 2
   \<and> average_area_ratio (main_fc ''dir'' 2 (\<lambda>i. demo_world)) = 8 / 9"
proof -
  let ?worlds = "\<lambda>i::nat. demo_world"
  have two: "(2::nat) = Suc (Suc 0)" by simp
  have same: "\<forall>i<Suc (Suc 0). length (run_results_fc ''dir'' (?worlds i)) = 2"
    by (simp add: demo_run_results)
  have every: "all_successes_fc ''dir'' (Suc (Suc 0)) ?worlds
                 = [(''dir/b.tiff'', 1, 16 / 9, 50, 20), (''dir/c.tiff'', 0, 0, 120, 60),
                    (''dir/b.tiff'', 1, 16 / 9, 50, 20), (''dir/c.tiff'', 0, 0, 120, 60)]"
    by (simp add: all_successes_fc_Suc all_successes_fc_def demo_run_results)
  note inst = main_fc_averages_equal_counts
    [where directory = "''dir''" and worlds = ?worlds and n = "Suc 0" and k = 2, OF same]
  from inst every show ?thesis
    unfolding two
    by (simp add: demo_run_results process_time_fc_def findcontour_time_fc_def
        circularity_ratio_fc_def area_ratio_fc_def)
qed

text \<open>
  Claim C1 does not hold of the code. \<^verbatim>\<open>main\<close> divides the sums over every Success of
  every repetition by \<^verbatim>\<open>results.size() * repetitions\<close>, and after the loop \<^verbatim>\<open>results\<close> holds
  the last repetition only. With two repetitions, of which the first finds the frames
  \<^verbatim>\<open>a\<close>, \<^verbatim>\<open>b\<close>, \<^verbatim>\<open>c\<close> (two Successes, 50 and 120 microseconds) and the second, after
  \<^verbatim>\<open>c.tiff\<close> was removed, the frames \<^verbatim>\<open>a\<close>, \<^verbatim>\<open>b\<close> (one Success, 50 microseconds), there are
  three Successes with 220 microseconds in total, and the program prints 110 where the
  average over all Successes is 220 / 3.
\<close>

theorem main_fc_divides_by_last_run_count:
  "length (all_successes_fc ''dir'' 2 (\<lambda>i. if i = 0 then demo_world else demo_world_without_c)) = 3
   \<and> sum_list (map process_time_fc
        (all_successes_fc ''dir'' 2 (\<lambda>i. if i = 0 then demo_world else demo_world_without_c)))
       = 220
   \<and> average_processing_time
        (main_fc ''dir'' 2 (\<lambda>i. if i = 0 then demo_world else demo_world_without_c)) = 110
   \<and> sum_list (map findcontour_time_fc
        (all_successes_fc ''dir'' 2 (\<lambda>i. if i = 0 then demo_world else demo_world_without_c)))
       = 100
   \<and> average_findcontour_time
        (main_fc ''dir'' 2 (\<lambda>i. if i = 0 then demo_world else demo_world_without_c)) = 50
   \<and> sum_list (map circularity_ratio_fc
        (all_successes_fc ''dir'' 2 (\<lambda>i. if i = 0 then demo_world else demo_world_without_c)))
       = 2
   \<and> average_circularity_ratio
        (main_fc ''dir'' 2 (\<lambda>i. if i = 0 then demo_world else demo_world_without_c)) = 1
   \<and> sum_list (map area_ratio_fc
        (all_successes_fc ''dir'' 2 (\<lambda>i. if i = 0 then demo_world else demo_world_without_c)))
       = 32 / 9
   \<and> average_area_ratio
        (main_fc ''dir'' 2 (\<lambda>i. if i = 0 then demo_world else demo_world_without_c)) = 16 / 9"
proof -
  let ?worlds = "\<lambda>i::nat. if i = 0 then demo_world else demo_world_without_c"
  have two: "(2::nat) = Suc (Suc 0)" by simp
  have every: "all_successes_fc ''dir'' 2 ?worlds
                 = [(''dir/b.tiff'', 1, 16 / 9, 50, 20), (''dir/c.tiff'', 0, 0, 120, 60),
                    (''dir/b.tiff'', 1, 16 / 9, 50, 20)]"
    unfolding two
    by (simp add: all_successes_fc_Suc all_successes_fc_def demo_run_results
        demo_without_c_run_results)
  have last: "run_results_fc ''dir'' (?worlds (Suc 0)) = [(''dir/b.tiff'', 1, 16 / 9, 50, 20)]"
    by (simp add: demo_without_c_run_results)
  have sums: "sum_list (map process_time_fc (all_successes_fc ''dir'' 2 ?worlds)) = 220"
    "sum_list (map findcontour_time_fc (all_successes_fc ''dir'' 2 ?worlds)) = 100"
    "sum_list (map circularity_ratio_fc (all_successes_fc ''dir'' 2 ?worlds)) = 2"
    "sum_list (map area_ratio_fc (all_successes_fc ''dir'' 2 ?worlds)) = 32 / 9"
    by (simp_all add: every process_time_fc_def findcontour_time_fc_def
        circularity_ratio_fc_def area_ratio_fc_def)
  have averages: "average_processing_time (main_fc ''dir'' 2 ?worlds) = 110"
    "average_findcontour_time (main_fc ''dir'' 2 ?worlds) = 50"
    "average_circularity_ratio (main_fc ''dir'' 2 ?worlds) = 1"
    "average_area_ratio (main_fc ''dir'' 2 ?worlds) = 16 / 9"
    using main_fc_averages [where directory = "''dir''" and worlds = ?worlds and n = "Suc 0"]
      sums last
    unfolding two [symmetric] Suc_1 by simp_all
  from every sums averages show ?thesis by simp
qed

lemma main_loop_fc_unreadable:
  assumes "\<forall>i<n. Mat_empty (lib (worlds i)) (background_of (worlds i) directory)"
  shows "main_loop_fc directory n worlds =
     \<lparr>m_results = [], m_skipped_images = [], m_max_time_image = ([], 0),
      total_circularity_ratio = 0, total_area_ratio = 0, total_processing_time = 0,
      m_total_findcontour_time = 0,
      cerr = replicate n (''Error: Could not read background image: '' @ directory
                           @ ''/background.tiff'')\<rparr>"
  using assms
proof (induction n)
  case 0
  show ?case by (simp add: main_loop_fc_0)
next
  case (Suc n)
  then have unreadable: "Mat_empty (lib (worlds n)) (background_of (worlds n) directory)"
    and before: "main_loop_fc directory n worlds =
     \<lparr>m_results = [], m_skipped_images = [], m_max_time_image = ([], 0),
      total_circularity_ratio = 0, total_area_ratio = 0, total_processing_time = 0,
      m_total_findcontour_time = 0,
      cerr = replicate n (''Error: Could not read background image: '' @ directory
                           @ ''/background.tiff'')\<rparr>"
    by simp_all
  show ?case
    by (simp add: main_loop_fc_Suc before repetition_fc_def
        run_experiment_fc_unreadable [OF unreadable] replicate_append_same)
qed

text \<open>
  Claim C3 does not hold of the code. When \<^verbatim>\<open>background.tiff\<close> cannot be read,
  \<^verbatim>\<open>run_experiment\<close> writes the diagnostic and returns, and \<^verbatim>\<open>main\<close> carries on: all 10000
  repetitions run, each writing the diagnostic again, the four averages are printed as zero,
  and the exit status is 0.
\<close>

theorem main_fc_continues_without_background:
  "main_fc ''dir'' 10000 (\<lambda>i. no_background_world) =
     \<lparr>average_circularity_ratio = 0, average_area_ratio = 0, average_processing_time = 0,
      average_findcontour_time = 0,
      stderr_text = replicate 10000 ''Error: Could not read background image: dir/background.tiff'',
      exit_status = 0\<rparr>"
proof -
  have "Mat_empty (lib no_background_world) (background_of no_background_world ''dir'')"
    by (simp add: no_background_world_def background_of_def fake_cv_simps)
  then have "\<forall>i<10000. Mat_empty (lib ((\<lambda>i. no_background_world) i))
                           (background_of ((\<lambda>i. no_background_world) i) ''dir'')"
    by simp
  from main_loop_fc_unreadable [OF this] show ?thesis
    by (simp add: main_fc_def Let_def)
qed

section \<open>Unreadable frames\<close>

lemma process_single_image_fc_call_returns:
  assumes "\<not> GaussianBlur_raises cv (imread cv image_path)"
  shows "process_single_image_fc_call cv now image_path blurred_bg out
           = Returned (process_single_image_fc cv now image_path blurred_bg out)"
  using assms by (simp add: process_single_image_fc_call_def)

lemma process_single_image_fc_call_raises:
  assumes "GaussianBlur_raises cv (imread cv image_path)"
  shows "process_single_image_fc_call cv now image_path blurred_bg out = Raised"
  using assms by (simp add: process_single_image_fc_call_def)

lemma consume_fc_call_returns:
  assumes "\<not> GaussianBlur_raises (lib w) (imread (lib w) (entry_path path))"
  shows "consume_fc_call w blurred_bg path st = Returned (consume_fc w blurred_bg path st)"
  using assms
  by (simp add: consume_fc_call_def consume_fc_def process_single_image_fc_call_returns Let_def)

lemma consume_fc_call_raises:
  assumes "GaussianBlur_raises (lib w) (imread (lib w) (entry_path path))"
  shows "consume_fc_call w blurred_bg path st = Raised"
  using assms by (simp add: consume_fc_call_def process_single_image_fc_call_raises)

lemma foldl_Raised:
  "foldl (\<lambda>r path. case r of Raised \<Rightarrow> Raised | Returned st \<Rightarrow> f path st) Raised items = Raised"
  by (induction items) simp_all

lemma foldl_consume_fc_call_returns:
  assumes "\<forall>path\<in>set items. \<not> GaussianBlur_raises (lib w) (imread (lib w) (entry_path path))"
  shows "foldl (\<lambda>r path. case r of
                            Raised \<Rightarrow> Raised
                          | Returned st \<Rightarrow> consume_fc_call w blurred_bg path st)
           (Returned st0) items
         = Returned (foldl (\<lambda>st path. consume_fc w blurred_bg path st) st0 items)"
  using assms
proof (induction items rule: rev_induct)
  case Nil
  show ?case by simp
next
  case (snoc x xs)
  then show ?case by (simp add: consume_fc_call_returns)
qed

text \<open>
  While no library call raises, the run with the throw is the run without it: the
  statements about \<open>run_experiment_fc\<close> are statements about the runs of the program in
  which every enumerated frame could be read.
\<close>

lemma run_experiment_fc_call_returns:
  assumes "\<not> GaussianBlur_raises (lib w) (background_of w directory)"
    and "\<forall>path\<in>set (enumerated (entries w)).
           \<not> GaussianBlur_raises (lib w) (imread (lib w) (entry_path path))"
  shows "run_experiment_fc_call w directory rs sk mti
           = Returned (run_experiment_fc w directory rs sk mti)"
  using assms(1)
  by (simp add: run_experiment_fc_call_def run_experiment_fc_def background_of_def Let_def
      foldl_consume_fc_call_returns [OF assms(2)])

text \<open>
  Claim C8 does not hold of the code. \<^verbatim>\<open>process_single_image\<close> of
  findcontour\_time\_10000.cpp has no result for a frame that cannot be read: it does not test
  \<^verbatim>\<open>image.empty()\<close> after \<^verbatim>\<open>imread\<close>, and the empty matrix makes \<^verbatim>\<open>GaussianBlur\<close>
  throw. In the concrete directory with the unreadable entry \<^verbatim>\<open>missing.tiff\<close> the call for
  that frame raises instead of returning, the consumer records the path neither in
  \<^verbatim>\<open>results\<close> nor in \<^verbatim>\<open>skipped_images\<close>, and \<^verbatim>\<open>run_experiment\<close> raises instead of
  returning, although the frame \<^verbatim>\<open>a.tiff\<close> before it was recorded as a skip in the usual way.
\<close>

theorem unreadable_frame_raises:
  "Mat_empty (lib unreadable_world)
      (imread (lib unreadable_world) (entry_path (tiff ''dir'' ''missing'')))
   \<and> enumerated (entries unreadable_world)
       = [tiff ''dir'' ''a'', tiff ''dir'' ''missing'', tiff ''dir'' ''b'', tiff ''dir'' ''c'']
   \<and> process_single_image_fc_call (lib unreadable_world)
         (clock_of unreadable_world ''dir/missing.tiff'') ''dir/missing.tiff'' (Image 0 [])
         \<lparr>contours = [], metrics = ContourMetrics0, duration = 7, findcontour_duration = 7\<rparr>
       = Raised
   \<and> consume_fc_call unreadable_world (Image 0 []) (tiff ''dir'' ''missing'')
         \<lparr>total_time = 0, number = 0, max_process_time = 0, results = [],
          skipped_images = [''dir/a.tiff''], max_time_image = ([], 0),
          total_findcontour_time = 0\<rparr>
       = Raised
   \<and> consume_fc_call unreadable_world (Image 0 []) (tiff ''dir'' ''a'')
         \<lparr>total_time = 0, number = 0, max_process_time = 0, results = [], skipped_images = [],
          max_time_image = ([], 0), total_findcontour_time = 0\<rparr>
       = Returned
           \<lparr>total_time = 0, number = 0, max_process_time = 0, results = [],
            skipped_images = [''dir/a.tiff''], max_time_image = ([], 0),
            total_findcontour_time = 0\<rparr>
   \<and> run_experiment_fc_call unreadable_world ''dir'' [] [] ([], 0) = Raised"
proof -
  have empty: "Mat_empty (lib unreadable_world)
      (imread (lib unreadable_world) (entry_path (tiff ''dir'' ''missing'')))"
    and raises: "GaussianBlur_raises (lib unreadable_world)
      (imread (lib unreadable_world) (entry_path (tiff ''dir'' ''missing'')))"
    and returns: "\<not> GaussianBlur_raises (lib unreadable_world)
      (imread (lib unreadable_world) (entry_path (tiff ''dir'' ''a'')))"
    by (simp_all add: unreadable_world_simps fake_cv_simps tiff_simps demo_files_simps)
  have items: "enumerated (entries unreadable_world)
       = [tiff ''dir'' ''a'', tiff ''dir'' ''missing'', tiff ''dir'' ''b'', tiff ''dir'' ''c'']"
    by (simp add: enumerated_def unreadable_world_simps tiff_simps)
  have call: "process_single_image_fc_call (lib unreadable_world)
         (clock_of unreadable_world ''dir/missing.tiff'') ''dir/missing.tiff'' (Image 0 [])
         \<lparr>contours = [], metrics = ContourMetrics0, duration = 7, findcontour_duration = 7\<rparr>
       = Raised"
    using raises by (simp add: process_single_image_fc_call_raises tiff_simps)
  have missing: "consume_fc_call unreadable_world (Image 0 []) (tiff ''dir'' ''missing'') st
       = Raised" for st
    using raises by (rule consume_fc_call_raises)
  have "250 > white_pixel_count_of (lib unreadable_world) (entry_path (tiff ''dir'' ''a''))
          (Image 0 [])"
    by (simp add: unreadable_world_simps fake_pipeline tiff_simps demo_files_simps fake_cv_simps)
  then have a: "consume_fc_call unreadable_world (Image 0 []) (tiff ''dir'' ''a'')
         \<lparr>total_time = 0, number = 0, max_process_time = 0, results = [], skipped_images = [],
          max_time_image = ([], 0), total_findcontour_time = 0\<rparr>
       = Returned
           \<lparr>total_time = 0, number = 0, max_process_time = 0, results = [],
            skipped_images = [''dir/a.tiff''], max_time_image = ([], 0),
            total_findcontour_time = 0\<rparr>"
    by (simp add: consume_fc_call_returns [OF returns] consume_fc_outside record_skip_fc_def
        tiff_simps)
  have "run_experiment_fc_call unreadable_world ''dir'' [] [] ([], 0) = Raised"
    unfolding run_experiment_fc_call_def Let_def items
    by (simp add: a missing foldl_Raised unreadable_world_simps(1) fake_cv_simps
        demo_files_simps)
  with empty items call missing a show ?thesis by simp
qed

section \<open>Interleaved consumers\<close>

lemma finish_L144:
  "pc t = L144 \<Longrightarrow>
   finish t v = record_success_fc (entry_path (popped t)) (metrics (locals t)) (duration (locals t))
                  (findcontour_duration (locals t)) v"
  by (simp add: finish_def record_success_fc_def line144_def line145_def line147_def
      line148_def line150_def line151_def Let_def)

lemma finish_L154: "pc t = L154 \<Longrightarrow> finish t v = record_skip_fc (entry_path (popped t)) v"
  by (simp add: finish_def record_skip_fc_def line154_def)

lemma max_pair_consistent_skip:
  "max_pair_consistent v \<Longrightarrow> max_pair_consistent (record_skip_fc p v)"
  by (simp add: max_pair_consistent_def record_skip_fc_def)

lemma max_pair_consistent_success:
  assumes good: "max_pair_consistent v" and positive: "0 < t"
  shows "max_pair_consistent (record_success_fc p m t ft v)"
proof -
  let ?new = "(p, circularity_ratio m, area_ratio m, t, ft) :: result_fc"
  let ?v = "record_success_fc p m t ft v"
  have res: "results ?v = results v @ [?new]" by (simp add: record_success_fc_fields)
  have new: "process_time_fc ?new = t" "fst ?new = p" by (simp_all add: process_time_fc_def)
  from good consider
      (empty) "results v = []" "max_process_time v = 0"
    | (some) r where "r \<in> set (results v)" "max_time_image v = (fst r, process_time_fc r)"
        "max_process_time v = process_time_fc r"
        "\<forall>x\<in>set (results v). process_time_fc x \<le> process_time_fc r"
    unfolding max_pair_consistent_def by blast
  then show ?thesis
  proof cases
    case empty
    with positive have "max_time_image ?v = (p, t)" "max_process_time ?v = t"
      by (simp_all add: record_success_fc_max)
    with res new empty show ?thesis
      unfolding max_pair_consistent_def by (intro disjI2 bexI [of _ ?new]) simp_all
  next
    case some
    show ?thesis
    proof (cases "t > process_time_fc r")
      case True
      with some have "max_time_image ?v = (p, t)" "max_process_time ?v = t"
        by (simp_all add: record_success_fc_max)
      moreover have "\<forall>x\<in>set (results ?v). process_time_fc x \<le> t"
        using some(4) True new by (fastforce simp: res)
      ultimately show ?thesis
        unfolding max_pair_consistent_def using res new
        by (intro disjI2 bexI [of _ ?new]) simp_all
    next
      case False
      with some have "max_time_image ?v = (fst r, process_time_fc r)"
        "max_process_time ?v = process_time_fc r"
        by (simp_all add: record_success_fc_max)
      moreover have "\<forall>x\<in>set (results ?v). process_time_fc x \<le> process_time_fc r"
        using some(4) False new by (auto simp: res)
      ultimately show ?thesis
        unfolding max_pair_consistent_def using res some(1)
        by (intro disjI2 bexI [of _ r]) simp_all
    qed
  qed
qed

lemma invariant_initial: "invariant (initial_system n w)"
  by (simp add: invariant_def initial_system_def in_section_def max_pair_consistent_def)

lemma invariant_same:
  assumes "tasks s' = tasks s" and "mtx s' = mtx s" and "vars s' = vars s"
  shows "invariant s' = invariant s"
  unfolding invariant_def assms ..

lemma invariant_producer:
  assumes "invariant s"
  shows "invariant (producer_step s)"
proof -
  have "tasks (producer_step s) = tasks s" "mtx (producer_step s) = mtx s"
    "vars (producer_step s) = vars s"
    by (simp_all add: producer_step_def split: list.split)
  from invariant_same [OF this] assms show ?thesis by simp
qed

lemma in_section_simps:
  "\<not> in_section L133" "\<not> in_section L135" "\<not> in_section L142" "\<not> in_section L143"
  "in_section L144" "in_section L145" "in_section L146" "in_section L147" "in_section L148"
  "in_section L150" "in_section L151" "in_section L152" "\<not> in_section L153"
  "in_section L154" "in_section L155" "\<not> in_section L160"
  by (simp_all add: in_section_def)

lemma finish_simps:
  "pc t = L152 \<Longrightarrow> finish t v = v"
  "pc t = L155 \<Longrightarrow> finish t v = v"
  "pc t = L151 \<Longrightarrow> finish t v = line151 t v"
  "pc t = L150 \<Longrightarrow> finish t v = line151 t (line150 t v)"
  "pc t = L148 \<Longrightarrow> finish t v = line151 t (line150 t (line148 t v))"
  "pc t = L147 \<Longrightarrow> finish t v = line151 t (line150 t (line148 t (line147 t v)))"
  "pc t = L146 \<Longrightarrow> finish t v =
     (if duration (locals t) > max_process_time v
      then line151 t (line150 t (line148 t (line147 t v))) else line151 t (line150 t v))"
  "pc t = L154 \<Longrightarrow> finish t v = line154 t v"
  by (simp_all add: finish_def)

lemma finish_L145:
  "pc t = L145 \<Longrightarrow> finish t v =
     (if duration (locals t) > max_process_time v
      then line151 t (line150 t (line148 t (line147 t (line145 t v))))
      else line151 t (line150 t (line145 t v)))"
  by (simp add: finish_def line145_def)

lemma finish_L144_lines:
  "pc t = L144 \<Longrightarrow> finish t v =
     (if duration (locals t) > max_process_time v
      then line151 t (line150 t (line148 t (line147 t (line145 t (line144 t v)))))
      else line151 t (line150 t (line145 t (line144 t v))))"
  by (simp add: finish_def line145_def line144_def)

lemma line_locals [simp]:
  "line144 (t\<lparr>pc := l\<rparr>) = line144 t" "line145 (t\<lparr>pc := l\<rparr>) = line145 t"
  "line147 (t\<lparr>pc := l\<rparr>) = line147 t" "line148 (t\<lparr>pc := l\<rparr>) = line148 t"
  "line150 (t\<lparr>pc := l\<rparr>) = line150 t" "line151 (t\<lparr>pc := l\<rparr>) = line151 t"
  "line154 (t\<lparr>pc := l\<rparr>) = line154 t"
  by (simp_all add: fun_eq_iff line144_def line145_def line147_def line148_def line150_def
      line151_def line154_def)

text \<open>
  A step of task \<open>i\<close> keeps the invariant when the new place, the new mutex and the new
  shared variables fit together; the other tasks are as they were.
\<close>

lemma invariant_update:
  assumes inv: "invariant s" and i: "i < length (tasks s)"
    and s': "tasks s' = (tasks s)[i := t']" "mtx s' = m'" "vars s' = v'"
    and insec: "in_section (pc t') \<Longrightarrow> m' = Some i"
    and positive: "pc t' = L143 \<Longrightarrow> duration (locals t') > 0"
    and unlocked: "m' = None \<Longrightarrow> max_pair_consistent v'"
    and mine: "m' = Some i \<Longrightarrow> in_section (pc t') \<and> max_pair_consistent (finish t' v')"
    and theirs: "\<And>j. m' = Some j \<Longrightarrow> j \<noteq> i \<Longrightarrow> mtx s = Some j \<and> v' = vars s"
    and others: "\<And>j. j < length (tasks s) \<Longrightarrow> j \<noteq> i \<Longrightarrow> in_section (pc (tasks s ! j))
                   \<Longrightarrow> m' = Some j"
  shows "invariant s'"
proof -
  from inv have excl: "\<And>j. j < length (tasks s) \<Longrightarrow> in_section (pc (tasks s ! j)) \<Longrightarrow> mtx s = Some j"
    and pos: "\<And>j. j < length (tasks s) \<Longrightarrow> pc (tasks s ! j) = L143 \<Longrightarrow> duration (locals (tasks s ! j)) > 0"
    and held: "\<And>j. mtx s = Some j \<Longrightarrow> j < length (tasks s) \<and> in_section (pc (tasks s ! j))
                  \<and> max_pair_consistent (finish (tasks s ! j) (vars s))"
    unfolding invariant_def by blast+
  have len: "length (tasks s') = length (tasks s)" by (simp add: s')
  have nth: "\<And>j. j < length (tasks s) \<Longrightarrow> tasks s' ! j = (if j = i then t' else tasks s ! j)"
    by (simp add: s' nth_list_update)
  have a: "mtx s' = Some j" if "j < length (tasks s')" "in_section (pc (tasks s' ! j))" for j
  proof (cases "j = i")
    case True
    with that insec i show ?thesis by (simp add: nth len s')
  next
    case False
    with that others show ?thesis by (simp add: nth len s')
  qed
  have b: "duration (locals (tasks s' ! j)) > 0" if "j < length (tasks s')" "pc (tasks s' ! j) = L143" for j
  proof (cases "j = i")
    case True
    with that positive i show ?thesis by (simp add: nth len)
  next
    case False
    with that pos show ?thesis by (simp add: nth len)
  qed
  have c: "mtx s' = None \<Longrightarrow> max_pair_consistent (vars s')"
    using unlocked by (simp add: s')
  have d: "j < length (tasks s') \<and> in_section (pc (tasks s' ! j))
             \<and> max_pair_consistent (finish (tasks s' ! j) (vars s'))" if "mtx s' = Some j" for j
  proof (cases "j = i")
    case True
    with that mine i show ?thesis by (simp add: nth len s')
  next
    case False
    from that have "m' = Some j" by (simp add: s')
    from theirs [OF this False] have old: "mtx s = Some j" and same: "v' = vars s" by simp_all
    from held [OF old] False same show ?thesis by (simp add: nth len s')
  qed
  from a b c d show ?thesis unfolding invariant_def by blast
qed

lemma invariant_parts:
  assumes "invariant s"
  shows "\<And>j. j < length (tasks s) \<Longrightarrow> in_section (pc (tasks s ! j)) \<Longrightarrow> mtx s = Some j"
    and "\<And>j. j < length (tasks s) \<Longrightarrow> pc (tasks s ! j) = L143 \<Longrightarrow> duration (locals (tasks s ! j)) > 0"
    and "mtx s = None \<Longrightarrow> max_pair_consistent (vars s)"
    and "\<And>j. mtx s = Some j \<Longrightarrow> j < length (tasks s)"
    and "\<And>j. mtx s = Some j \<Longrightarrow> in_section (pc (tasks s ! j))"
    and "\<And>j. mtx s = Some j \<Longrightarrow> max_pair_consistent (finish (tasks s ! j) (vars s))"
  using assms unfolding invariant_def by blast+

lemma invariant_outside_move:
  assumes inv: "invariant s" and i: "i < length (tasks s)"
    and outside: "\<not> in_section (pc (tasks s ! i))"
    and s': "tasks s' = (tasks s)[i := t']" "mtx s' = mtx s" "vars s' = vars s"
    and still: "\<not> in_section (pc t')"
    and positive: "pc t' = L143 \<Longrightarrow> duration (locals t') > 0"
  shows "invariant s'"
proof (rule invariant_update [OF inv i s'])
  show "in_section (pc t') \<Longrightarrow> mtx s = Some i" using still by simp
  show "pc t' = L143 \<Longrightarrow> 0 < duration (locals t')" by (rule positive)
  show "mtx s = None \<Longrightarrow> max_pair_consistent (vars s)" by (rule invariant_parts(3) [OF inv])
  show "mtx s = Some i \<Longrightarrow> in_section (pc t') \<and> max_pair_consistent (finish t' (vars s))"
    using invariant_parts(5) [OF inv, of i] outside by blast
  show "\<And>j. mtx s = Some j \<Longrightarrow> j \<noteq> i \<Longrightarrow> mtx s = Some j \<and> vars s = vars s" by simp
  show "\<And>j. j < length (tasks s) \<Longrightarrow> j \<noteq> i \<Longrightarrow> in_section (pc (tasks s ! j)) \<Longrightarrow> mtx s = Some j"
    by (rule invariant_parts(1) [OF inv])
qed

lemma invariant_acquire:
  assumes inv: "invariant s" and i: "i < length (tasks s)"
    and free: "mtx s = None"
    and s': "tasks s' = (tasks s)[i := t']" "mtx s' = Some i" "vars s' = vars s"
    and inside: "in_section (pc t')"
    and good: "max_pair_consistent (finish t' (vars s))"
  shows "invariant s'"
proof (rule invariant_update [OF inv i s'])
  show "in_section (pc t') \<Longrightarrow> Some i = Some i" by simp
  show "pc t' = L143 \<Longrightarrow> 0 < duration (locals t')" using inside by (simp add: in_section_simps)
  show "Some i = None \<Longrightarrow> max_pair_consistent (vars s)" by simp
  show "Some i = Some i \<Longrightarrow> in_section (pc t') \<and> max_pair_consistent (finish t' (vars s))"
    using inside good by simp
  show "\<And>j. Some i = Some j \<Longrightarrow> j \<noteq> i \<Longrightarrow> mtx s = Some j \<and> vars s = vars s" by simp
  show "\<And>j. j < length (tasks s) \<Longrightarrow> j \<noteq> i \<Longrightarrow> in_section (pc (tasks s ! j)) \<Longrightarrow> Some i = Some j"
    using invariant_parts(1) [OF inv] free by fastforce
qed

lemma invariant_inside_move:
  assumes inv: "invariant s" and i: "i < length (tasks s)"
    and inside: "in_section (pc (tasks s ! i))"
    and s': "tasks s' = (tasks s)[i := t']" "mtx s' = mtx s" "vars s' = v'"
    and still: "in_section (pc t')"
    and same: "finish t' v' = finish (tasks s ! i) (vars s)"
  shows "invariant s'"
proof -
  have own: "mtx s = Some i" using invariant_parts(1) [OF inv i inside] .
  show ?thesis
  proof (rule invariant_update [OF inv i s'])
    show "in_section (pc t') \<Longrightarrow> mtx s = Some i" by (simp add: own)
    show "pc t' = L143 \<Longrightarrow> 0 < duration (locals t')" using still by (simp add: in_section_simps)
    show "mtx s = None \<Longrightarrow> max_pair_consistent v'" by (simp add: own)
    show "mtx s = Some i \<Longrightarrow> in_section (pc t') \<and> max_pair_consistent (finish t' v')"
      using still invariant_parts(6) [OF inv own] by (simp add: same)
    show "\<And>j. mtx s = Some j \<Longrightarrow> j \<noteq> i \<Longrightarrow> mtx s = Some j \<and> v' = vars s" by (simp add: own)
    show "\<And>j. j < length (tasks s) \<Longrightarrow> j \<noteq> i \<Longrightarrow> in_section (pc (tasks s ! j)) \<Longrightarrow> mtx s = Some j"
      by (rule invariant_parts(1) [OF inv])
  qed
qed

lemma invariant_release:
  assumes inv: "invariant s" and i: "i < length (tasks s)"
    and inside: "in_section (pc (tasks s ! i))"
    and finished: "finish (tasks s ! i) (vars s) = vars s"
    and s': "tasks s' = (tasks s)[i := t']" "mtx s' = None" "vars s' = vars s"
    and outside: "\<not> in_section (pc t')" "pc t' \<noteq> L143"
  shows "invariant s'"
proof -
  have own: "mtx s = Some i" using invariant_parts(1) [OF inv i inside] .
  show ?thesis
  proof (rule invariant_update [OF inv i s'])
    show "in_section (pc t') \<Longrightarrow> None = Some i" using outside by simp
    show "pc t' = L143 \<Longrightarrow> 0 < duration (locals t')" using outside by simp
    show "None = None \<Longrightarrow> max_pair_consistent (vars s)"
      using invariant_parts(6) [OF inv own] by (simp add: finished)
    show "None = Some i \<Longrightarrow> in_section (pc t') \<and> max_pair_consistent (finish t' (vars s))"
      by simp
    show "\<And>j. None = Some j \<Longrightarrow> j \<noteq> i \<Longrightarrow> mtx s = Some j \<and> vars s = vars s" by simp
    show "\<And>j. j < length (tasks s) \<Longrightarrow> j \<noteq> i \<Longrightarrow> in_section (pc (tasks s ! j)) \<Longrightarrow> None = Some j"
      using invariant_parts(1) [OF inv] own by fastforce
  qed
qed

lemma invariant_consumer:
  assumes inv: "invariant s"
  shows "invariant (consumer_step w bg i s)"
proof (cases "i < length (tasks s)")
  case False
  then show ?thesis using inv by (simp add: consumer_step_def)
next
  case i: True
  let ?t = "tasks s ! i"
  let ?s' = "consumer_step w bg i s"
  show ?thesis
  proof (cases "pc ?t")
    case L133
    show ?thesis
    proof (rule invariant_outside_move [OF inv i, of _ "?t\<lparr>pc := (if \<not> processing_complete s \<or> image_queue s \<noteq> [] then L135 else L160)\<rparr>"])
      show "\<not> in_section (pc ?t)" by (simp add: L133 in_section_simps)
    qed (use i L133 in \<open>simp_all add: consumer_step_def Let_def in_section_simps split: if_splits\<close>)
  next
    case L135
    show ?thesis
    proof (cases "image_queue s")
      case Nil
      show ?thesis
      proof (rule invariant_outside_move [OF inv i, of _ "?t\<lparr>pc := L133\<rparr>"])
        show "\<not> in_section (pc ?t)" by (simp add: L135 in_section_simps)
      qed (use i L135 Nil in \<open>simp_all add: consumer_step_def Let_def in_section_simps\<close>)
    next
      case (Cons p rest)
      show ?thesis
      proof (rule invariant_outside_move [OF inv i, of _ "\<lparr>pc = L142, popped = p, locals = outcome_fc w bg p\<rparr>"])
        show "\<not> in_section (pc ?t)" by (simp add: L135 in_section_simps)
      qed (use i L135 Cons in \<open>simp_all add: consumer_step_def Let_def in_section_simps\<close>)
    qed
  next
    case L142
    show ?thesis
    proof (rule invariant_outside_move [OF inv i, of _ "?t\<lparr>pc := (if duration (locals ?t) > 0 then L143 else L153)\<rparr>"])
      show "\<not> in_section (pc ?t)" by (simp add: L142 in_section_simps)
    qed (use i L142 in \<open>simp_all add: consumer_step_def Let_def in_section_simps split: if_splits\<close>)
  next
    case L143
    show ?thesis
    proof (cases "mtx s")
      case (Some j)
      with L143 i inv show ?thesis by (simp add: consumer_step_def Let_def)
    next
      case None
      have t: "0 < duration (locals ?t)" using invariant_parts(2) [OF inv i L143] .
      have good: "max_pair_consistent (finish (?t\<lparr>pc := L144\<rparr>) (vars s))"
        using max_pair_consistent_success [OF invariant_parts(3) [OF inv None] t]
        by (simp add: finish_L144)
      show ?thesis
        by (rule invariant_acquire [OF inv i None _ _ _ _ good])
          (use i L143 None in \<open>simp_all add: consumer_step_def Let_def in_section_simps\<close>)
    qed
  next
    case L153
    show ?thesis
    proof (cases "mtx s")
      case (Some j)
      with L153 i inv show ?thesis by (simp add: consumer_step_def Let_def)
    next
      case None
      have good: "max_pair_consistent (finish (?t\<lparr>pc := L154\<rparr>) (vars s))"
        using max_pair_consistent_skip [OF invariant_parts(3) [OF inv None]]
        by (simp add: finish_L154)
      show ?thesis
        by (rule invariant_acquire [OF inv i None _ _ _ _ good])
          (use i L153 None in \<open>simp_all add: consumer_step_def Let_def in_section_simps\<close>)
    qed
  next
    case L144
    show ?thesis
    proof (rule invariant_inside_move [OF inv i, of _ "?t\<lparr>pc := L145\<rparr>" "line144 ?t (vars s)"])
      show "finish (?t\<lparr>pc := L145\<rparr>) (line144 ?t (vars s)) = finish ?t (vars s)"
        by (simp add: finish_L145 finish_L144_lines L144 line144_def)
    qed (use i L144 in \<open>simp_all add: consumer_step_def Let_def in_section_simps\<close>)
  next
    case L145
    show ?thesis
    proof (rule invariant_inside_move [OF inv i, of _ "?t\<lparr>pc := L146\<rparr>" "line145 ?t (vars s)"])
      show "finish (?t\<lparr>pc := L146\<rparr>) (line145 ?t (vars s)) = finish ?t (vars s)"
        by (simp add: finish_L145 finish_simps L145 line145_def)
    qed (use i L145 in \<open>simp_all add: consumer_step_def Let_def in_section_simps\<close>)
  next
    case L146
    show ?thesis
    proof (rule invariant_inside_move [OF inv i, of _
          "?t\<lparr>pc := (if duration (locals ?t) > max_process_time (vars s) then L147 else L150)\<rparr>"
          "vars s"])
      show "finish (?t\<lparr>pc := (if duration (locals ?t) > max_process_time (vars s) then L147
                                 else L150)\<rparr>) (vars s) = finish ?t (vars s)"
        by (simp add: finish_simps L146)
    qed (use i L146 in \<open>simp_all add: consumer_step_def Let_def in_section_simps\<close>)
  next
    case L147
    show ?thesis
    proof (rule invariant_inside_move [OF inv i, of _ "?t\<lparr>pc := L148\<rparr>" "line147 ?t (vars s)"])
      show "finish (?t\<lparr>pc := L148\<rparr>) (line147 ?t (vars s)) = finish ?t (vars s)"
        by (simp add: finish_simps L147)
    qed (use i L147 in \<open>simp_all add: consumer_step_def Let_def in_section_simps\<close>)
  next
    case L148
    show ?thesis
    proof (rule invariant_inside_move [OF inv i, of _ "?t\<lparr>pc := L150\<rparr>" "line148 ?t (vars s)"])
      show "finish (?t\<lparr>pc := L150\<rparr>) (line148 ?t (vars s)) = finish ?t (vars s)"
        by (simp add: finish_simps L148)
    qed (use i L148 in \<open>simp_all add: consumer_step_def Let_def in_section_simps\<close>)
  next
    case L150
    show ?thesis
    proof (rule invariant_inside_move [OF inv i, of _ "?t\<lparr>pc := L151\<rparr>" "line150 ?t (vars s)"])
      show "finish (?t\<lparr>pc := L151\<rparr>) (line150 ?t (vars s)) = finish ?t (vars s)"
        by (simp add: finish_simps L150)
    qed (use i L150 in \<open>simp_all add: consumer_step_def Let_def in_section_simps\<close>)
  next
    case L151
    show ?thesis
    proof (rule invariant_inside_move [OF inv i, of _ "?t\<lparr>pc := L152\<rparr>" "line151 ?t (vars s)"])
      show "finish (?t\<lparr>pc := L152\<rparr>) (line151 ?t (vars s)) = finish ?t (vars s)"
        by (simp add: finish_simps L151)
    qed (use i L151 in \<open>simp_all add: consumer_step_def Let_def in_section_simps\<close>)
  next
    case L154
    show ?thesis
    proof (rule invariant_inside_move [OF inv i, of _ "?t\<lparr>pc := L155\<rparr>" "line154 ?t (vars s)"])
      show "finish (?t\<lparr>pc := L155\<rparr>) (line154 ?t (vars s)) = finish ?t (vars s)"
        by (simp add: finish_simps L154)
    qed (use i L154 in \<open>simp_all add: consumer_step_def Let_def in_section_simps\<close>)
  next
    case L152
    show ?thesis
    proof (rule invariant_release [OF inv i, of _ "?t\<lparr>pc := L133\<rparr>"])
      show "finish ?t (vars s) = vars s" by (simp add: finish_simps L152)
    qed (use i L152 in \<open>simp_all add: consumer_step_def Let_def in_section_simps\<close>)
  next
    case L155
    show ?thesis
    proof (rule invariant_release [OF inv i, of _ "?t\<lparr>pc := L133\<rparr>"])
      show "finish ?t (vars s) = vars s" by (simp add: finish_simps L155)
    qed (use i L155 in \<open>simp_all add: consumer_step_def Let_def in_section_simps\<close>)
  next
    case L160
    with i inv show ?thesis by (simp add: consumer_step_def Let_def)
  qed
qed

lemma invariant_run: "invariant s \<Longrightarrow> invariant (run_schedule w bg s schedule)"
  unfolding run_schedule_def
proof (induction schedule arbitrary: s)
  case Nil
  then show ?case by simp
next
  case (Cons a schedule)
  have "invariant (act w bg s a)"
    using Cons.prems by (cases a) (simp_all add: invariant_producer invariant_consumer)
  from Cons.IH [OF this] show ?case by simp
qed

lemma run_schedule_append:
  "run_schedule w bg s (xs @ ys) = run_schedule w bg (run_schedule w bg s xs) ys"
  by (simp add: run_schedule_def)

lemma demo_outcome_b_values:
  "duration (outcome_fc demo_world (Image 0 []) (tiff ''dir'' ''b'')) = 50"
  "findcontour_duration (outcome_fc demo_world (Image 0 []) (tiff ''dir'' ''b'')) = 20"
  "circularity_ratio (metrics (outcome_fc demo_world (Image 0 []) (tiff ''dir'' ''b''))) = 1"
  "area_ratio (metrics (outcome_fc demo_world (Image 0 []) (tiff ''dir'' ''b''))) = 16 / 9"
  by (simp_all add: demo_outcome_fc demo_metrics_b)

lemma demo_start:
  "run_schedule demo_world (Image 0 []) (initial_system 2 demo_world) demo_schedule_start =
     \<lparr>tasks =
        [\<lparr>pc = L153, popped = tiff ''dir'' ''a'',
          locals = outcome_fc demo_world (Image 0 []) (tiff ''dir'' ''a'')\<rparr>,
         \<lparr>pc = L148, popped = tiff ''dir'' ''b'',
          locals = outcome_fc demo_world (Image 0 []) (tiff ''dir'' ''b'')\<rparr>],
      image_queue = [tiff ''dir'' ''c''],
      processing_complete = True,
      mtx = Some (Suc 0),
      vars = \<lparr>total_time = 50, number = 0, max_process_time = 50, results = [],
              skipped_images = [], max_time_image = ([], 0), total_findcontour_time = 20\<rparr>,
      remaining_entries = []\<rparr>"
  by (simp add: run_schedule_def demo_schedule_start_def initial_system_def producer_step_def
      consumer_step_def Let_def demo_world_simps tiff_simps numeral_2_eq_2
      demo_outcome_b_values demo_outcome_fc(1,3) line144_def line145_def line147_def)

lemma demo_outcome_c_values:
  "duration (outcome_fc demo_world (Image 0 []) (tiff ''dir'' ''c'')) = 120"
  "findcontour_duration (outcome_fc demo_world (Image 0 []) (tiff ''dir'' ''c'')) = 60"
  "circularity_ratio (metrics (outcome_fc demo_world (Image 0 []) (tiff ''dir'' ''c''))) = 0"
  "area_ratio (metrics (outcome_fc demo_world (Image 0 []) (tiff ''dir'' ''c''))) = 0"
  "duration (outcome_fc demo_world (Image 0 []) (tiff ''dir'' ''a'')) = 0"
  by (simp_all add: demo_outcome_fc ContourMetrics0_fields)

lemma demo_end:
  "run_schedule demo_world (Image 0 []) (initial_system 2 demo_world)
     (demo_schedule_start @ demo_schedule_rest) =
     \<lparr>tasks =
        [\<lparr>pc = L133, popped = tiff ''dir'' ''a'',
          locals = outcome_fc demo_world (Image 0 []) (tiff ''dir'' ''a'')\<rparr>,
         \<lparr>pc = L133, popped = tiff ''dir'' ''c'',
          locals = outcome_fc demo_world (Image 0 []) (tiff ''dir'' ''c'')\<rparr>],
      image_queue = [],
      processing_complete = True,
      mtx = None,
      vars = \<lparr>total_time = 170, number = 2, max_process_time = 120,
              results = [(''dir/b.tiff'', 1, 16 / 9, 50, 20), (''dir/c.tiff'', 0, 0, 120, 60)],
              skipped_images = [''dir/a.tiff''], max_time_image = (''dir/c.tiff'', 120),
              total_findcontour_time = 80\<rparr>,
      remaining_entries = []\<rparr>"
  unfolding run_schedule_append demo_start
  by (simp add: run_schedule_def demo_schedule_rest_def consumer_step_def Let_def tiff_simps
      demo_outcome_b_values demo_outcome_c_values line144_def line145_def line147_def
      line148_def line150_def line151_def line154_def)

text \<open>
  Claim C2. Whatever the number of consumer tasks and however their steps and the
  producer's interleave: a task is at the comparison of line 146 or at one of the two
  replacements of lines 147 and 148 only while it holds the mutex; no two tasks are inside a
  \<^verbatim>\<open>lock_guard\<close> scope at once; and whenever the mutex is free, so that every update that was
  begun is complete, \<^verbatim>\<open>max_time_image\<close> is the path and the time of a recorded Success,
  \<^verbatim>\<open>max_process_time\<close> is that same time, and no recorded Success took longer (or nothing has
  been recorded yet and the maximum is zero).
\<close>

theorem max_pair_is_replaced_under_the_mutex:
  fixes w :: "('mat, 'cnt) world" and blurred_bg :: 'mat and n :: nat and schedule :: "actor list"
  defines "s \<equiv> run_schedule w blurred_bg (initial_system n w) schedule"
  shows "(\<forall>i<length (tasks s). pc (tasks s ! i) \<in> {L146, L147, L148} \<longrightarrow> mtx s = Some i)
       \<and> (\<forall>i<length (tasks s). \<forall>j<length (tasks s).
             in_section (pc (tasks s ! i)) \<and> in_section (pc (tasks s ! j)) \<longrightarrow> i = j)
       \<and> (mtx s = None \<longrightarrow> max_pair_consistent (vars s))"
proof -
  have inv: "invariant s"
    unfolding s_def by (rule invariant_run [OF invariant_initial])
  have holder: "mtx s = Some i" if "i < length (tasks s)" "in_section (pc (tasks s ! i))" for i
    using invariant_parts(1) [OF inv that] .
  have "mtx s = Some i" if "i < length (tasks s)" "pc (tasks s ! i) \<in> {L146, L147, L148}" for i
    using holder [OF that(1)] that(2) by (auto simp: in_section_simps)
  moreover have "i = j"
    if "i < length (tasks s)" "j < length (tasks s)"
      "in_section (pc (tasks s ! i)) \<and> in_section (pc (tasks s ! j))" for i j
    using holder [of i] holder [of j] that by simp
  moreover have "max_pair_consistent (vars s)" if "mtx s = None"
    using invariant_parts(3) [OF inv that] .
  ultimately show ?thesis by blast
qed

theorem max_pair_is_replaced_under_the_mutex_witness:
  "pc (tasks (run_schedule demo_world (Image 0 []) (initial_system 2 demo_world)
         demo_schedule_start) ! Suc 0) \<in> {L146, L147, L148}
   \<and> mtx (run_schedule demo_world (Image 0 []) (initial_system 2 demo_world)
         demo_schedule_start) = Some (Suc 0)
   \<and> mtx (run_schedule demo_world (Image 0 []) (initial_system 2 demo_world)
         (demo_schedule_start @ demo_schedule_rest)) = None
   \<and> max_pair_consistent (vars (run_schedule demo_world (Image 0 []) (initial_system 2 demo_world)
         (demo_schedule_start @ demo_schedule_rest)))
   \<and> max_time_image (vars (run_schedule demo_world (Image 0 []) (initial_system 2 demo_world)
         (demo_schedule_start @ demo_schedule_rest))) = (''dir/c.tiff'', 120)
   \<and> max_process_time (vars (run_schedule demo_world (Image 0 []) (initial_system 2 demo_world)
         (demo_schedule_start @ demo_schedule_rest))) = 120"
proof -
  let ?mid = "run_schedule demo_world (Image 0 []) (initial_system 2 demo_world)
                demo_schedule_start"
  let ?end = "run_schedule demo_world (Image 0 []) (initial_system 2 demo_world)
                (demo_schedule_start @ demo_schedule_rest)"
  have at148: "Suc 0 < length (tasks ?mid)" "pc (tasks ?mid ! Suc 0) \<in> {L146, L147, L148}"
    by (simp_all add: demo_start)
  have free: "mtx ?end = None" by (simp add: demo_end)
  note mid = max_pair_is_replaced_under_the_mutex
    [where w = demo_world and blurred_bg = "Image 0 []" and n = 2
       and schedule = demo_schedule_start, THEN conjunct1, rule_format, OF at148]
  note fin = max_pair_is_replaced_under_the_mutex
    [where w = demo_world and blurred_bg = "Image 0 []" and n = 2
       and schedule = "demo_schedule_start @ demo_schedule_rest",
     THEN conjunct2, THEN conjunct2, rule_format, OF free]
  from at148 mid free fin show ?thesis by (simp add: demo_end)
qed

text \<open>
  The transition system agrees with the function \<open>consume_fc\<close> used for the runs above: a
  task that pops a path while the mutex is free and then runs without interruption to the
  end of its \<^verbatim>\<open>lock_guard\<close> scope (eleven steps when the maximum is replaced, nine when it is
  not, five for a skip) leaves the shared variables as \<open>consume_fc\<close> does.
\<close>

lemma task_alone_is_consume_fc:
  fixes w :: "('mat, 'cnt) world" and s :: "'cnt system" and bg :: 'mat and p :: dir_entry
  defines "k \<equiv> (if duration (outcome_fc w bg p) > 0
                  then (if duration (outcome_fc w bg p) > max_process_time (vars s)
                        then 11 else 9)
                  else 5 :: nat)"
  assumes i: "i < length (tasks s)" and at135: "pc (tasks s ! i) = L135"
    and queue: "image_queue s = p # rest" and free: "mtx s = None"
  shows "vars (run_schedule w bg s (replicate k (Consumer i))) = consume_fc w bg p (vars s)
       \<and> mtx (run_schedule w bg s (replicate k (Consumer i))) = None
       \<and> image_queue (run_schedule w bg s (replicate k (Consumer i))) = rest"
proof -
  consider (skip) "\<not> duration (outcome_fc w bg p) > 0"
    | (greater) "duration (outcome_fc w bg p) > 0"
        "duration (outcome_fc w bg p) > max_process_time (vars s)"
    | (not_greater) "duration (outcome_fc w bg p) > 0"
        "\<not> duration (outcome_fc w bg p) > max_process_time (vars s)"
    by blast
  then show ?thesis
  proof cases
    case skip
    then have k: "k = Suc (Suc (Suc (Suc (Suc 0))))" by (simp add: k_def)
    show ?thesis
      unfolding k using i at135 queue free skip
      by (simp add: run_schedule_def consumer_step_def Let_def consume_fc_processed
          processed_fc_def record_skip_fc_def line154_def)
  next
    case greater
    then have k: "k = Suc (Suc (Suc (Suc (Suc (Suc (Suc (Suc (Suc (Suc (Suc 0))))))))))"
      by (simp add: k_def)
    show ?thesis
      unfolding k using i at135 queue free greater
      by (simp add: run_schedule_def consumer_step_def Let_def consume_fc_processed
          processed_fc_def record_success_fc_def line144_def line145_def line147_def
          line148_def line150_def line151_def)
  next
    case not_greater
    then have k: "k = Suc (Suc (Suc (Suc (Suc (Suc (Suc (Suc (Suc 0))))))))"
      by (simp add: k_def)
    show ?thesis
      unfolding k using i at135 queue free not_greater
      by (simp add: run_schedule_def consumer_step_def Let_def consume_fc_processed
          processed_fc_def record_success_fc_def line144_def line145_def line147_def
          line148_def line150_def line151_def)
  qed
qed

lemma demo_single_task_ready:
  "run_schedule demo_world (Image 0 []) (initial_system (Suc 0) demo_world)
     [Producer, Producer, Producer, Producer, Producer,
      Consumer 0, Consumer 0, Consumer 0, Consumer 0, Consumer 0, Consumer 0, Consumer 0] =
     \<lparr>tasks =
        [\<lparr>pc = L135, popped = tiff ''dir'' ''a'',
          locals = outcome_fc demo_world (Image 0 []) (tiff ''dir'' ''a'')\<rparr>],
      image_queue = [tiff ''dir'' ''b'', tiff ''dir'' ''c''],
      processing_complete = True,
      mtx = None,
      vars = \<lparr>total_time = 0, number = 0, max_process_time = 0, results = [],
              skipped_images = [''dir/a.tiff''], max_time_image = ([], 0),
              total_findcontour_time = 0\<rparr>,
      remaining_entries = []\<rparr>"
  by (simp add: run_schedule_def initial_system_def producer_step_def consumer_step_def Let_def
      demo_world_simps tiff_simps demo_outcome_c_values line154_def)

theorem task_alone_is_consume_fc_witness:
  "vars (run_schedule demo_world (Image 0 [])
          (run_schedule demo_world (Image 0 []) (initial_system (Suc 0) demo_world)
             [Producer, Producer, Producer, Producer, Producer,
              Consumer 0, Consumer 0, Consumer 0, Consumer 0, Consumer 0, Consumer 0, Consumer 0])
          (replicate 11 (Consumer 0)))
     = \<lparr>total_time = 50, number = 1, max_process_time = 50,
        results = [(''dir/b.tiff'', 1, 16 / 9, 50, 20)],
        skipped_images = [''dir/a.tiff''], max_time_image = (''dir/b.tiff'', 50),
        total_findcontour_time = 20\<rparr>"
proof -
  let ?s = "run_schedule demo_world (Image 0 []) (initial_system (Suc 0) demo_world)
             [Producer, Producer, Producer, Producer, Producer,
              Consumer 0, Consumer 0, Consumer 0, Consumer 0, Consumer 0, Consumer 0, Consumer 0]"
  have ready: "0 < length (tasks ?s)" "pc (tasks ?s ! 0) = L135"
    "image_queue ?s = tiff ''dir'' ''b'' # [tiff ''dir'' ''c'']" "mtx ?s = None"
    by (simp_all add: demo_single_task_ready)
  have v: "vars ?s = \<lparr>total_time = 0, number = 0, max_process_time = 0, results = [],
              skipped_images = [''dir/a.tiff''], max_time_image = ([], 0),
              total_findcontour_time = 0\<rparr>"
    by (simp add: demo_single_task_ready)
  from task_alone_is_consume_fc [OF ready, of demo_world "Image 0 []"]
  show ?thesis
    by (simp add: v demo_outcome_b_values consume_fc_processed processed_fc_def
        record_success_fc_def Let_def tiff_simps)
qed

section \<open>Every enumerated path is recorded once\<close>



lemma line_results [simp]:
  "results (line144 t v) = results v" "results (line145 t v) = results v"
  "results (line147 t v) = results v" "results (line148 t v) = results v"
  "results (line150 t v) = results v"
  "results (line151 t v) =
     results v @ [(entry_path (popped t), circularity_ratio (metrics (locals t)),
       area_ratio (metrics (locals t)), duration (locals t), findcontour_duration (locals t))]"
  "results (line154 t v) = results v"
  by (simp_all add: line144_def line145_def line147_def line148_def line150_def line151_def
      line154_def)

lemma line_skipped [simp]:
  "skipped_images (line144 t v) = skipped_images v" "skipped_images (line145 t v) = skipped_images v"
  "skipped_images (line147 t v) = skipped_images v" "skipped_images (line148 t v) = skipped_images v"
  "skipped_images (line150 t v) = skipped_images v" "skipped_images (line151 t v) = skipped_images v"
  "skipped_images (line154 t v) = skipped_images v @ [entry_path (popped t)]"
  by (simp_all add: line144_def line145_def line147_def line148_def line150_def line151_def
      line154_def)

lemma line_number [simp]:
  "number (line144 t v) = number v" "number (line145 t v) = number v"
  "number (line147 t v) = number v" "number (line148 t v) = number v"
  "number (line150 t v) = number v + 1" "number (line151 t v) = number v"
  "number (line154 t v) = number v"
  by (simp_all add: line144_def line145_def line147_def line148_def line150_def line151_def
      line154_def)





































end
